theory Spec2Isabelle
  imports Complex_Main
begin

section \<open>JavaScript strings\<close>

text \<open>
  A JavaScript string is modelled as a HOL \<open>string\<close>: a list of code units in the range
  U+0000..U+00FF. Within that range the regular-expression class \<open>\s\<close> holds the code units
  9 to 13, 32 and 160.
\<close>

definition is_space :: "char \<Rightarrow> bool" where
  "is_space c = (of_char c \<in> {9, 10, 11, 12, 13, 32, 160 :: nat})"

text \<open>\<open>s.startsWith(p)\<close> and \<open>s.slice(n)\<close> for \<open>0 \<le> n\<close>.\<close>

definition startsWith :: "string \<Rightarrow> string \<Rightarrow> bool" where
  "startsWith s p = (take (length p) s = p)"

definition slice_from :: "nat \<Rightarrow> string \<Rightarrow> string" where
  "slice_from n s = drop n s"

section \<open>JavaScript values\<close>

text \<open>
  The values that \<open>JSON.parse\<close> yields, and \<open>undefined\<close>. A number is a real (every
  double is one; \<open>NaN\<close> and the infinities do not occur in JSON). An object is the list
  of its own properties; a parsed object has each key once.
\<close>

datatype json =
    JUndefined | JNull | JBool bool | JNum real | JStr string
  | JArr "json list" | JObj "(string \<times> json) list"

text \<open>
  A thrown value: \<open>new Error(message)\<close>, a \<open>TypeError\<close> raised by the language, or the
  rejection of an HTTP call, which carries its message and \<open>error.response?.data\<close>
  (\<open>JUndefined\<close> when the provider sent no answer).
\<close>

datatype js_error = Error string | TypeError string | HttpError string json

fun truthy :: "json \<Rightarrow> bool" where
  "truthy JUndefined = False"
| "truthy JNull = False"
| "truthy (JBool b) = b"
| "truthy (JNum x) = (x \<noteq> 0)"
| "truthy (JStr s) = (s \<noteq> [])"
| "truthy (JArr xs) = True"
| "truthy (JObj ps) = True"

text \<open>A name between single quotes, as the messages of the engine print it.\<close>

definition quoted :: "string \<Rightarrow> string" where
  "quoted k = CHR 0x27 # k @ [CHR 0x27]"

text \<open>
  Reading a property, \<open>v.k\<close>: a \<open>TypeError\<close> on \<open>undefined\<close> and \<open>null\<close>, with the message
  of Node's engine. The handlers read only names that no string, number, boolean or array
  inherits, so those values give \<open>undefined\<close>.
\<close>

fun get_prop :: "json \<Rightarrow> string \<Rightarrow> js_error + json" where
  "get_prop JUndefined k =
     Inl (TypeError (''Cannot read properties of undefined (reading '' @ quoted k @ '')''))"
| "get_prop JNull k =
     Inl (TypeError (''Cannot read properties of null (reading '' @ quoted k @ '')''))"
| "get_prop (JObj ps) k = Inr (case map_of ps k of None \<Rightarrow> JUndefined | Some v \<Rightarrow> v)"
| "get_prop v k = Inr JUndefined"

text \<open>
  Destructuring, \<open>const { k } = src\<close>, where \<open>src\<close> is the text of the expression and
  \<open>v\<close> its value: the same read, with the message the engine gives for a pattern.
\<close>

definition destructure :: "string \<Rightarrow> json \<Rightarrow> string \<Rightarrow> js_error + json" where
  "destructure src v k =
     (if v = JUndefined then
        Inl (TypeError (''Cannot destructure property '' @ quoted k @ '' of '' @ quoted src @
                        '' as it is undefined.''))
      else if v = JNull then
        Inl (TypeError (''Cannot destructure property '' @ quoted k @ '' of '' @ quoted src @
                        '' as it is null.''))
      else get_prop v k)"

text \<open>Sequencing of steps that may throw: the first thrown value ends the block.\<close>

definition then_do :: "'e + 'a \<Rightarrow> ('a \<Rightarrow> 'e + 'b) \<Rightarrow> 'e + 'b" where
  "then_do m f = (case m of Inl e \<Rightarrow> Inl e | Inr x \<Rightarrow> f x)"

text \<open>
  The conversion of a value to a property key. How a number prints (\<open>Number::toString\<close>)
  is a parameter \<open>numstr\<close> of the model. An array prints its elements joined by commas,
  \<open>undefined\<close> and \<open>null\<close> as nothing. An object prints through the inherited
  \<open>toString\<close>; an own property \<open>toString\<close> of a parsed object is not a function, which
  leaves the object no primitive value, and the conversion throws.
\<close>

fun js_to_string :: "(real \<Rightarrow> string) \<Rightarrow> json \<Rightarrow> js_error + string"
  and join_elements :: "(real \<Rightarrow> string) \<Rightarrow> json list \<Rightarrow> js_error + string" where
  "js_to_string numstr JUndefined = Inr ''undefined''"
| "js_to_string numstr JNull = Inr ''null''"
| "js_to_string numstr (JBool b) = Inr (if b then ''true'' else ''false'')"
| "js_to_string numstr (JNum x) = Inr (numstr x)"
| "js_to_string numstr (JStr s) = Inr s"
| "js_to_string numstr (JArr xs) = join_elements numstr xs"
| "js_to_string numstr (JObj ps) =
     (if map_of ps ''toString'' = None then Inr ''[object Object]''
      else Inl (TypeError ''Cannot convert object to primitive value''))"
| "join_elements numstr [] = Inr []"
| "join_elements numstr (x # xs) =
     then_do (if x = JUndefined \<or> x = JNull then Inr [] else js_to_string numstr x) (\<lambda>s.
       if xs = [] then Inr s
       else then_do (join_elements numstr xs) (\<lambda>r. Inr (s @ '','' @ r)))"

text \<open>
  An object built by \<open>const o = {}\<close> and assignments \<open>o[k] = v\<close>: its own properties,
  latest first, and its prototype when an assignment to \<open>__proto__\<close> has replaced
  \<open>Object.prototype\<close>. Such an assignment reaches the inherited accessor unless the
  object or its prototype holds a data property of that name; the accessor takes objects
  and \<open>null\<close> and ignores every other value.
\<close>

record js_object =
  own :: "(string \<times> json) list"
  proto :: "json option"

definition empty_object :: js_object where
  "empty_object = \<lparr>own = [], proto = None\<rparr>"

fun is_object :: "json \<Rightarrow> bool" where
  "is_object (JObj ps) = True"
| "is_object (JArr xs) = True"
| "is_object JNull = True"
| "is_object v = False"

fun inherits_accessor :: "json option \<Rightarrow> bool" where
  "inherits_accessor None = True"
| "inherits_accessor (Some (JObj ps)) = (map_of ps ''__proto__'' = None)"
| "inherits_accessor (Some (JArr xs)) = True"
| "inherits_accessor (Some v) = False"

definition assign :: "js_object \<Rightarrow> string \<Rightarrow> json \<Rightarrow> js_object" where
  "assign obj k v =
     (if k = ''__proto__'' \<and> map_of (own obj) k = None \<and> inherits_accessor (proto obj)
      then (if is_object v then obj\<lparr>proto := Some v\<rparr> else obj)
      else obj\<lparr>own := (k, v) # own obj\<rparr>)"

text \<open>\<open>o.k\<close> for a name \<open>k\<close> that neither \<open>Object.prototype\<close> nor an array defines.\<close>

definition read :: "js_object \<Rightarrow> string \<Rightarrow> json" where
  "read obj k =
     (case map_of (own obj) k of
        Some v \<Rightarrow> v
      | None \<Rightarrow>
          (case proto obj of
             Some (JObj ps) \<Rightarrow> (case map_of ps k of None \<Rightarrow> JUndefined | Some v \<Rightarrow> v)
           | _ \<Rightarrow> JUndefined))"

text \<open>
  \<open>holder?.list?.forEach((item) => { o[item.key] = item.value; })\<close> on a fresh object
  \<open>o\<close>: nothing happens when \<open>holder\<close> or the list is \<open>undefined\<close> or \<open>null\<close>; a list
  that is not an array has no \<open>forEach\<close> to call (the message names the expression
  called, \<open>callee\<close>); an item that is \<open>undefined\<close> or \<open>null\<close> has no properties to read;
  a key that has no primitive value cannot name a property.
\<close>

fun collect ::
  "(real \<Rightarrow> string) \<Rightarrow> string \<Rightarrow> string \<Rightarrow> json list \<Rightarrow> js_object \<Rightarrow> js_error + js_object"
where
  "collect numstr kname vname [] obj = Inr obj"
| "collect numstr kname vname (item # items) obj =
     then_do (get_prop item kname) (\<lambda>k.
     then_do (get_prop item vname) (\<lambda>v.
     then_do (js_to_string numstr k) (\<lambda>name.
       collect numstr kname vname items (assign obj name v))))"

definition forEach_collect ::
  "(real \<Rightarrow> string) \<Rightarrow> string \<Rightarrow> string \<Rightarrow> json \<Rightarrow> string \<Rightarrow> string \<Rightarrow>
   js_error + js_object" where
  "forEach_collect numstr kname vname holder listname callee =
     (if holder = JUndefined \<or> holder = JNull then Inr empty_object
      else
        then_do (get_prop holder listname) (\<lambda>items.
          (case items of
             JUndefined \<Rightarrow> Inr empty_object
           | JNull \<Rightarrow> Inr empty_object
           | JArr xs \<Rightarrow> collect numstr kname vname xs empty_object
           | _ \<Rightarrow> Inl (TypeError (callee @ '' is not a function'')))))"

text \<open>\<open>Math.round\<close>: the nearest integer, a tie going up.\<close>

definition js_round :: "real \<Rightarrow> real" where
  "js_round x = of_int \<lfloor>x + 1 / 2\<rfloor>"

text \<open>\<open>v || d\<close> for a string \<open>v\<close> that may be absent.\<close>

definition or_default :: "string option \<Rightarrow> string \<Rightarrow> string" where
  "or_default v d = (case v of None \<Rightarrow> d | Some s \<Rightarrow> if s = [] then d else s)"

text \<open>\<open>Buffer.from(s)\<close>: the UTF-8 bytes of \<open>s\<close>; \<open>.toString("base64")\<close> of a buffer.\<close>

definition utf8 :: "string \<Rightarrow> nat list" where
  "utf8 s =
     concat (map (\<lambda>c. if of_char c < (128::nat) then [of_char c]
                       else [192 + of_char c div 64, 128 + of_char c mod 64]) s)"

definition b64_alphabet :: string where
  "b64_alphabet = ''ABCDEFGHIJKLMNOPQRSTUVWXYZabcdefghijklmnopqrstuvwxyz0123456789+/''"

definition b64_digit :: "nat \<Rightarrow> char" where
  "b64_digit n = b64_alphabet ! (n mod 64)"

fun base64 :: "nat list \<Rightarrow> string" where
  "base64 (a # b # c # rest) =
     b64_digit (a div 4) # b64_digit ((a mod 4) * 16 + b div 16) #
     b64_digit ((b mod 16) * 4 + c div 64) # b64_digit (c mod 64) # base64 rest"
| "base64 [a, b] =
     [b64_digit (a div 4), b64_digit ((a mod 4) * 16 + b div 16),
      b64_digit ((b mod 16) * 4), CHR ''='']"
| "base64 [a] = [b64_digit (a div 4), b64_digit ((a mod 4) * 16), CHR ''='', CHR ''='']"
| "base64 [] = []"

section \<open>Phone numbers\<close>

text \<open>The character class \<open>[\s\-+]\<close> of \<open>formatPhoneNumber\<close>.\<close>

definition strip_class :: "char \<Rightarrow> bool" where
  "strip_class c = (is_space c \<or> c = CHR ''-'' \<or> c = CHR ''+'')"

text \<open>
  \<^verbatim>\<open>
  const formatPhoneNumber = (phone) => {
    let cleaned = phone.replace(/[\s\-+]/g, "");
    if (cleaned.startsWith("0")) { cleaned = "254" + cleaned.slice(1); }
    if (!cleaned.startsWith("254")) { cleaned = "254" + cleaned; }
    return cleaned;
  };
  \<close>
\<close>

definition formatPhoneNumber :: "string \<Rightarrow> string" where
  "formatPhoneNumber phone =
     (let cleaned = filter (\<lambda>c. \<not> strip_class c) phone;
          cleaned = (if startsWith cleaned ''0'' then ''254'' @ slice_from 1 cleaned else cleaned);
          cleaned = (if \<not> startsWith cleaned ''254'' then ''254'' @ cleaned else cleaned)
      in cleaned)"

text \<open>
  The reference rule, following the specification's words: strip whitespace, dashes and plus
  signs; a leading trunk prefix \<open>0\<close> is replaced by the country code \<open>254\<close>; a value that
  still lacks the \<open>254\<close> prefix gets it prepended.
\<close>

fun spec_strip :: "string \<Rightarrow> string" where
  "spec_strip [] = []"
| "spec_strip (c # cs) =
     (if is_space c \<or> c = CHR ''-'' \<or> c = CHR ''+'' then spec_strip cs else c # spec_strip cs)"

fun spec_trunk :: "string \<Rightarrow> string" where
  "spec_trunk (c # cs) = (if c = CHR ''0'' then ''254'' @ cs else c # cs)"
| "spec_trunk [] = []"

fun spec_country :: "string \<Rightarrow> string" where
  "spec_country (a # b # c # cs) =
     (if a = CHR ''2'' \<and> b = CHR ''5'' \<and> c = CHR ''4'' then a # b # c # cs
      else ''254'' @ a # b # c # cs)"
| "spec_country cs = ''254'' @ cs"

definition spec_normalize :: "string \<Rightarrow> string" where
  "spec_normalize phone = spec_country (spec_trunk (spec_strip phone))"

section \<open>The access token cache\<close>

text \<open>
  \<^verbatim>\<open>
  const ACCESS_TOKEN_BUFFER_MS = 60 * 1000;
  const accessTokenCache = { token: null, expiresAt: 0, inFlight: null };
  \<close>
  The pending promise held in \<open>inFlight\<close> is a handle: the number of the provider
  request it waits for. Times are milliseconds, as \<open>Date.now()\<close> returns them.
\<close>

type_synonym handle = nat
type_synonym caller = nat
type_synonym token_result = "js_error + string"

record accessTokenCache =
  token :: "string option"
  expiresAt :: int
  inFlight :: "handle option"

definition ACCESS_TOKEN_BUFFER_MS :: int where
  "ACCESS_TOKEN_BUFFER_MS = 60 * 1000"

definition empty_cache :: accessTokenCache where
  "empty_cache = \<lparr>token = None, expiresAt = 0, inFlight = None\<rparr>"

text \<open>
  What the provider's token endpoint answers to \<open>axios.get\<close>: the call is rejected (no
  connection, the 10 s timeout, a status outside 2xx), or it returns data whose
  \<open>access_token\<close> is a string or is missing, and whose \<open>expires_in\<close> is given here as
  the integer \<open>Number(expires_in)\<close>, \<open>None\<close> when that is not a number.
\<close>

datatype auth_reply =
    AuthRejected js_error
  | AuthReplied (access_token: "string option") (expires_in: "int option")

text \<open>
  The process around the cache: the provider requests sent and not yet answered, the count
  of requests sent so far, the callers awaiting a pending handle, and the results handed
  to callers so far.
\<close>

record world =
  cache :: accessTokenCache
  outstanding :: "handle list"
  issued :: nat
  waiting :: "(caller \<times> handle) list"
  returned :: "(caller \<times> token_result) list"

definition init :: world where
  "init = \<lparr>cache = empty_cache, outstanding = [], issued = 0, waiting = [], returned = []\<rparr>"

text \<open>\<open>accessTokenCache.token && accessTokenCache.expiresAt > now\<close>: the empty string is falsy.\<close>

definition cached_token :: "int \<Rightarrow> accessTokenCache \<Rightarrow> string option" where
  "cached_token now c =
     (case token c of
        None \<Rightarrow> None
      | Some t \<Rightarrow> if t \<noteq> [] \<and> expiresAt c > now then Some t else None)"

text \<open>
  \<open>generateAccessToken\<close> up to its first suspension. A valid cached token is returned; a
  pending handle is returned to be awaited; otherwise the asynchronous body starts, runs
  to \<open>await axios.get(...)\<close> (the provider request is sent), and its promise is stored in
  \<open>inFlight\<close> and returned. The call \<open>axios.get(...)\<close> hands back a promise: it
  settles in a later turn of the event loop and throws nothing before the body suspends.
\<close>

definition generateAccessToken :: "caller \<Rightarrow> int \<Rightarrow> world \<Rightarrow> world" where
  "generateAccessToken c now w =
     (case cached_token now (cache w) of
        Some t \<Rightarrow> w\<lparr>returned := returned w @ [(c, Inr t)]\<rparr>
      | None \<Rightarrow>
          (case inFlight (cache w) of
             Some h \<Rightarrow> w\<lparr>waiting := waiting w @ [(c, h)]\<rparr>
           | None \<Rightarrow>
               (let h = issued w in
                  w\<lparr>cache := (cache w)\<lparr>inFlight := Some h\<rparr>,
                    outstanding := outstanding w @ [h],
                    issued := issued w + 1,
                    waiting := waiting w @ [(c, h)]\<rparr>)))"

text \<open>
  The rest of the asynchronous body, run when the provider request settles at time
  \<open>now\<close>: the \<open>try\<close> block stores the token, the \<open>catch\<close> block empties the cache and
  throws the acquisition error, the \<open>finally\<close> block clears \<open>inFlight\<close>.
\<close>

definition acquisition_failed :: "accessTokenCache \<Rightarrow> token_result \<times> accessTokenCache" where
  "acquisition_failed c =
     (Inl (Error ''Failed to generate access token''), c\<lparr>token := None, expiresAt := 0\<rparr>)"

definition acquisition_body ::
  "auth_reply \<Rightarrow> int \<Rightarrow> accessTokenCache \<Rightarrow> token_result \<times> accessTokenCache" where
  "acquisition_body reply now c =
     (let (res, c) =
        (case reply of
           AuthRejected e \<Rightarrow> acquisition_failed c
         | AuthReplied tok secs \<Rightarrow>
             (case tok of
                None \<Rightarrow> acquisition_failed c
              | Some t \<Rightarrow>
                  if t = [] then acquisition_failed c
                  else
                    (let ttlMs =
                       (case secs of None \<Rightarrow> 3599 | Some n \<Rightarrow> if n = 0 then 3599 else n) * 1000
                     in (Inr t,
                         c\<lparr>token := Some t,
                           expiresAt := now + ttlMs - ACCESS_TOKEN_BUFFER_MS\<rparr>))))
      in (res, c\<lparr>inFlight := None\<rparr>))"

text \<open>The replies on which the attempt fails: a rejected call or a falsy \<open>access_token\<close>.\<close>

fun attempt_fails :: "auth_reply \<Rightarrow> bool" where
  "attempt_fails (AuthRejected e) = True"
| "attempt_fails (AuthReplied tok secs) = (tok = None \<or> tok = Some [])"

definition awaiting :: "handle \<Rightarrow> (caller \<times> handle) list \<Rightarrow> caller list" where
  "awaiting h ws = map fst (filter (\<lambda>(c, h'). h' = h) ws)"

text \<open>
  The provider answers request \<open>h\<close>: the body finishes and the promise settles, so every
  caller awaiting it gets its result.
\<close>

definition acquisition_settles :: "handle \<Rightarrow> auth_reply \<Rightarrow> int \<Rightarrow> world \<Rightarrow> world" where
  "acquisition_settles h reply now w =
     (if h \<in> set (outstanding w) then
        (let (res, c) = acquisition_body reply now (cache w) in
           w\<lparr>cache := c,
             outstanding := remove1 h (outstanding w),
             waiting := filter (\<lambda>(c, h'). h' \<noteq> h) (waiting w),
             returned := returned w @ map (\<lambda>c. (c, res)) (awaiting h (waiting w))\<rparr>)
      else w)"

text \<open>
  Callers and provider answers interleave freely: a run is any sequence of calls and
  answers, each taken as one uninterrupted turn of the event loop.
\<close>

datatype event = Call caller int | Answer handle auth_reply int

fun step :: "world \<Rightarrow> event \<Rightarrow> world" where
  "step w (Call c now) = generateAccessToken c now w"
| "step w (Answer h reply now) = acquisition_settles h reply now w"

definition run :: "event list \<Rightarrow> world" where
  "run evs = foldl step init evs"

text \<open>
  The invariant of every run: the outstanding provider requests are exactly the handle in
  \<open>inFlight\<close>, every waiting caller awaits that handle, and a cached token is never the
  empty string.
\<close>

definition single_flight :: "world \<Rightarrow> bool" where
  "single_flight w =
     (outstanding w = (case inFlight (cache w) of None \<Rightarrow> [] | Some h \<Rightarrow> [h]) \<and>
      list_all (\<lambda>(c, h). inFlight (cache w) = Some h) (waiting w) \<and>
      token (cache w) \<noteq> Some [])"

section \<open>Configuration and the request password\<close>

text \<open>
  \<open>MPESA_CONFIG\<close> and \<open>CALLBACK_BASE_URL\<close>, read from the environment: a variable that
  is not set is \<open>undefined\<close>, which a template literal prints as the word \<open>undefined\<close>
  and an object literal holds as an undefined property.
\<close>

record config =
  consumerKey :: "string option"
  consumerSecret :: "string option"
  shortCode :: "string option"
  passKey :: "string option"
  initiatorName :: "string option"
  securityCredential :: "string option"
  environment :: string
  callbackBaseUrl :: string

definition interpolate :: "string option \<Rightarrow> string" where
  "interpolate v = (case v of None \<Rightarrow> ''undefined'' | Some s \<Rightarrow> s)"

definition field :: "string option \<Rightarrow> json" where
  "field v = (case v of None \<Rightarrow> JUndefined | Some s \<Rightarrow> JStr s)"

definition is_digit :: "char \<Rightarrow> bool" where
  "is_digit c = (48 \<le> (of_char c :: nat) \<and> (of_char c :: nat) \<le> 57)"

text \<open>
  \<^verbatim>\<open>
  const generatePassword = () => {
    const timestamp = new Date().toISOString().replace(/[^0-9]/g, "").slice(0, -3);
    const password = Buffer.from(
      `${MPESA_CONFIG.shortCode}${MPESA_CONFIG.passKey}${timestamp}`).toString("base64");
    return { password, timestamp };
  };
  \<close>
  The argument \<open>stamp\<close> is what \<open>new Date().toISOString()\<close> returns at the time of the
  request, such as \<open>2026-11-03T10:00:00.000Z\<close>.
\<close>

definition generatePassword :: "config \<Rightarrow> string \<Rightarrow> string \<times> string" where
  "generatePassword cfg stamp =
     (let digits = filter is_digit stamp;
          timestamp = take (length digits - 3) digits;
          password =
            base64 (utf8 (interpolate (shortCode cfg) @ interpolate (passKey cfg) @ timestamp))
      in (password, timestamp))"

section \<open>The record store\<close>

text \<open>
  The table \<open>transactions\<close> of the external store: a row gives its columns their values.
  The call \<open>supabase.from("transactions").update(changes).eq(column, value)\<close> writes the
  changes to every row whose column holds the value; a change whose value is \<open>undefined\<close>
  is not in the JSON that is sent, and a column that is NULL equals nothing. The store
  applies an update, or refuses it (the call returns an error object, which the handlers
  do not look at), or the call throws.
\<close>

type_synonym row = "(string \<times> json) list"

fun set_col :: "string \<Rightarrow> json \<Rightarrow> row \<Rightarrow> row" where
  "set_col k v [] = [(k, v)]"
| "set_col k v ((k', v') # r) = (if k' = k then (k, v) # r else (k', v') # set_col k v r)"

record update_request =
  changes :: "(string \<times> json) list"
  eq_column :: string
  eq_value :: json

fun patch_row :: "(string \<times> json) list \<Rightarrow> row \<Rightarrow> row" where
  "patch_row [] r = r"
| "patch_row ((k, v) # kvs) r = patch_row kvs (if v = JUndefined then r else set_col k v r)"

definition row_matches :: "row \<Rightarrow> string \<Rightarrow> json \<Rightarrow> bool" where
  "row_matches r k v =
     (case map_of r k of None \<Rightarrow> False | Some x \<Rightarrow> x \<noteq> JNull \<and> x = v)"

definition apply_update :: "update_request \<Rightarrow> row list \<Rightarrow> row list" where
  "apply_update u rows =
     map (\<lambda>r. if row_matches r (eq_column u) (eq_value u) then patch_row (changes u) r else r)
       rows"

datatype store_behaviour = Applies | Refuses | Throws js_error

fun store_update ::
  "store_behaviour \<Rightarrow> update_request \<Rightarrow> row list \<Rightarrow> js_error + row list" where
  "store_update Applies u rows = Inr (apply_update u rows)"
| "store_update Refuses u rows = Inr rows"
| "store_update (Throws e) u rows = Inl e"

section \<open>Requests, responses and what a handler does\<close>

text \<open>
  A request body is JSON in which \<open>phoneNumber\<close> is a string and \<open>amount\<close> a number,
  each possibly absent; \<open>transaction\<close> and \<open>finalProjectId\<close> are any value,
  \<open>JUndefined\<close> when absent.
\<close>

record payment_request =
  phoneNumber :: "string option"
  amount :: "real option"

record stk_request = payment_request +
  accountReference :: "string option"
  transactionDesc :: "string option"

record b2c_request = payment_request +
  transaction :: json
  finalProjectId :: json
  remarks :: "string option"
  occasion :: "string option"

record http_response =
  status :: nat
  body :: json

text \<open>
  What a handler has done when it ends: the requests it posted to the provider (the
  bearer token and the payload of each) and the response it sent; for the handlers that
  use the store, also the table as they leave it and the projects handed to
  \<open>updateProject\<close>.
\<close>

record relay_outcome =
  posted :: "(string \<times> json) list"
  answer :: http_response

record store_outcome = relay_outcome +
  rows_after :: "row list"
  completed :: "json list"

definition bad_request :: "string \<Rightarrow> http_response" where
  "bad_request msg =
     \<lparr>status = 400, body = JObj [(''status'', JStr ''error''), (''message'', JStr msg)]\<rparr>"

text \<open>\<open>error.response?.data || error.message\<close>\<close>

fun error_detail :: "js_error \<Rightarrow> json" where
  "error_detail (Error m) = JStr m"
| "error_detail (TypeError m) = JStr m"
| "error_detail (HttpError m d) = (if truthy d then d else JStr m)"

definition server_error :: "string \<Rightarrow> js_error \<Rightarrow> http_response" where
  "server_error msg e =
     \<lparr>status = 500,
      body = JObj [(''status'', JStr ''error''), (''message'', JStr msg),
                   (''error'', error_detail e)]\<rparr>"

definition accepted :: http_response where
  "accepted =
     \<lparr>status = 200,
      body = JObj [(''ResultCode'', JNum 0), (''ResultDesc'', JStr ''Accepted'')]\<rparr>"

section \<open>Charge: POST /stk-push\<close>

text \<open>
  The handler after the rate limiter has let the request in. Its inputs from outside are
  the outcome of \<open>await generateAccessToken()\<close>, the time stamp of the request and the
  outcome of the \<open>axios.post\<close> to the provider: a thrown error or \<open>response.data\<close>.
  The payload holds a literal \<open>Password\<close> and \<open>Timestamp\<close>; the pair that
  \<open>generatePassword\<close> returns is computed and not used.
\<close>

definition stkPushPayload :: "config \<Rightarrow> string \<Rightarrow> string \<Rightarrow> real \<Rightarrow> stk_request \<Rightarrow> json" where
  "stkPushPayload cfg stamp formattedPhone a req =
     (let (password, timestamp) = generatePassword cfg stamp in
      JObj [(''BusinessShortCode'', field (shortCode cfg)),
            (''Password'', JStr ''MTc0Mzc5YmZiMjc5ZjlhYTliZGJjZjE1OGU5N2RkNzFhNDY3Y2QyZTBjODkzMDU5YjEwZjc4ZTZiNzJhZGExZWQyYzkxOTIwMjEwNjI4MDkyNDA4''),
            (''Timestamp'', JStr ''20210628092408''),
            (''TransactionType'', JStr ''CustomerPayBillOnline''),
            (''Amount'', JNum (js_round a)),
            (''PartyA'', JStr formattedPhone),
            (''PartyB'', field (shortCode cfg)),
            (''PhoneNumber'', JStr formattedPhone),
            (''CallBackURL'', JStr (callbackBaseUrl cfg @ ''/callback/stk-push'')),
            (''AccountReference'', JStr (or_default (accountReference req) ''Payment'')),
            (''TransactionDesc'',
               JStr (or_default (transactionDesc req) ''Payment for services''))])"

definition stk_success :: "json \<Rightarrow> js_error + http_response" where
  "stk_success data =
     then_do (get_prop data ''MerchantRequestID'') (\<lambda>merchantRequestID.
     then_do (get_prop data ''CheckoutRequestID'') (\<lambda>checkoutRequestID.
     then_do (get_prop data ''ResponseCode'') (\<lambda>responseCode.
     then_do (get_prop data ''ResponseDescription'') (\<lambda>responseDescription.
     then_do (get_prop data ''CustomerMessage'') (\<lambda>customerMessage.
       Inr \<lparr>status = 200,
            body = JObj [(''status'', JStr ''success''),
                         (''message'', JStr ''STK Push initiated successfully''),
                         (''data'', JObj [(''merchantRequestID'', merchantRequestID),
                                          (''checkoutRequestID'', checkoutRequestID),
                                          (''responseCode'', responseCode),
                                          (''responseDescription'', responseDescription),
                                          (''customerMessage'', customerMessage)])]\<rparr>)))))"

definition stk_push ::
  "config \<Rightarrow> stk_request \<Rightarrow> js_error + string \<Rightarrow> string \<Rightarrow> js_error + json \<Rightarrow> relay_outcome"
where
  "stk_push cfg req tok stamp provider =
     (case (phoneNumber req, amount req) of
        (Some phone, Some a) \<Rightarrow>
          if phone = [] \<or> a = 0 then
            \<lparr>posted = [], answer = bad_request ''Phone number and amount are required''\<rparr>
          else if a < 1 then
            \<lparr>posted = [], answer = bad_request ''Amount must be at least 1 KES''\<rparr>
          else
            (case tok of
               Inl e \<Rightarrow> \<lparr>posted = [], answer = server_error ''Failed to initiate STK Push'' e\<rparr>
             | Inr accessToken \<Rightarrow>
                 (let payload = stkPushPayload cfg stamp (formatPhoneNumber phone) a req in
                  case then_do provider stk_success of
                    Inl e \<Rightarrow> \<lparr>posted = [(accessToken, payload)],
                              answer = server_error ''Failed to initiate STK Push'' e\<rparr>
                  | Inr res \<Rightarrow> \<lparr>posted = [(accessToken, payload)], answer = res\<rparr>))
      | _ \<Rightarrow> \<lparr>posted = [], answer = bad_request ''Phone number and amount are required''\<rparr>)"

section \<open>Status query: POST /query-stk\<close>

definition queryPayload :: "config \<Rightarrow> string \<Rightarrow> string \<Rightarrow> json" where
  "queryPayload cfg stamp checkoutRequestID =
     (let (password, timestamp) = generatePassword cfg stamp in
      JObj [(''BusinessShortCode'', field (shortCode cfg)),
            (''Password'', JStr ''MTc0Mzc5YmZiMjc5ZjlhYTliZGJjZjE1OGU5N2RkNzFhNDY3Y2QyZTBjODkzMDU5YjEwZjc4ZTZiNzJhZGExZWQyYzkxOTIwMjEwNjI4MDkyNDA4''),
            (''Timestamp'', JStr ''20210628092408''),
            (''CheckoutRequestID'', JStr checkoutRequestID)])"

definition query_stk ::
  "config \<Rightarrow> string option \<Rightarrow> js_error + string \<Rightarrow> string \<Rightarrow> js_error + json \<Rightarrow> relay_outcome"
where
  "query_stk cfg checkoutRequestID tok stamp provider =
     (case checkoutRequestID of
        None \<Rightarrow> \<lparr>posted = [], answer = bad_request ''CheckoutRequestID is required''\<rparr>
      | Some cid \<Rightarrow>
          if cid = [] then
            \<lparr>posted = [], answer = bad_request ''CheckoutRequestID is required''\<rparr>
          else
            (case tok of
               Inl e \<Rightarrow> \<lparr>posted = [], answer = server_error ''Failed to query transaction'' e\<rparr>
             | Inr accessToken \<Rightarrow>
                 (let payload = queryPayload cfg stamp cid in
                  case provider of
                    Inl e \<Rightarrow> \<lparr>posted = [(accessToken, payload)],
                              answer = server_error ''Failed to query transaction'' e\<rparr>
                  | Inr data \<Rightarrow>
                      \<lparr>posted = [(accessToken, payload)],
                       answer = \<lparr>status = 200,
                                 body = JObj [(''status'', JStr ''success''), (''data'', data)]\<rparr>\<rparr>)))"

section \<open>Payout: POST /b2c-payment\<close>

definition b2cPayload :: "config \<Rightarrow> string \<Rightarrow> real \<Rightarrow> b2c_request \<Rightarrow> json" where
  "b2cPayload cfg formattedPhone a req =
     JObj [(''OriginatorConversationID'', JStr ''600997_Test_32et3241ed8yu''),
           (''InitiatorName'', field (initiatorName cfg)),
           (''SecurityCredential'', field (securityCredential cfg)),
           (''CommandID'', JStr ''BusinessPayment''),
           (''Amount'', JNum (js_round a)),
           (''PartyA'', field (shortCode cfg)),
           (''PartyB'', JStr formattedPhone),
           (''Remarks'', JStr (or_default (remarks req) ''Payment to freelancer'')),
           (''QueueTimeOutURL'', JStr (callbackBaseUrl cfg @ ''/callback/b2c-timeout'')),
           (''ResultURL'', JStr (callbackBaseUrl cfg @ ''/callback/b2c-result'')),
           (''Occasion'', JStr (or_default (occasion req) ''Freelancer Payment''))]"

definition b2c_success :: "json \<Rightarrow> js_error + http_response" where
  "b2c_success data =
     then_do (get_prop data ''ConversationID'') (\<lambda>conversationID.
     then_do (get_prop data ''OriginatorConversationID'') (\<lambda>originatorConversationID.
     then_do (get_prop data ''ResponseCode'') (\<lambda>responseCode.
     then_do (get_prop data ''ResponseDescription'') (\<lambda>responseDescription.
       Inr \<lparr>status = 200,
            body = JObj [(''status'', JStr ''success''),
                         (''message'', JStr ''B2C payment initiated successfully''),
                         (''data'', JObj [(''conversationID'', conversationID),
                                          (''originatorConversationID'', originatorConversationID),
                                          (''responseCode'', responseCode),
                                          (''responseDescription'', responseDescription)])]\<rparr>))))"

definition b2c_failed ::
  "(string \<times> json) list \<Rightarrow> row list \<Rightarrow> json list \<Rightarrow> js_error \<Rightarrow> store_outcome" where
  "b2c_failed sent rows done e =
     \<lparr>posted = sent, answer = server_error ''Failed to initiate B2C payment'' e,
      rows_after = rows, completed = done\<rparr>"

definition b2c_rejected :: "row list \<Rightarrow> string \<Rightarrow> store_outcome" where
  "b2c_rejected rows msg =
     \<lparr>posted = [], answer = bad_request msg, rows_after = rows, completed = []\<rparr>"

text \<open>
  After the provider has acknowledged the payout: the transaction row is updated, the
  project (when one is named) is handed to \<open>updateProject\<close>, whose own failures are
  caught inside it, and the success response is sent.
\<close>

definition b2c_payment ::
  "config \<Rightarrow> b2c_request \<Rightarrow> js_error + string \<Rightarrow> js_error + json \<Rightarrow> store_behaviour \<Rightarrow>
   row list \<Rightarrow> store_outcome"
where
  "b2c_payment cfg req tok provider sb rows =
     (case (phoneNumber req, amount req) of
        (Some phone, Some a) \<Rightarrow>
          if phone = [] \<or> a = 0 then
            b2c_rejected rows ''Phone number and amount are required''
          else if a < 10 then b2c_rejected rows ''Minimum B2C amount is 10 KES''
          else
            (case tok of
               Inl e \<Rightarrow> b2c_failed [] rows [] e
             | Inr accessToken \<Rightarrow>
                 (let sent = [(accessToken, b2cPayload cfg (formatPhoneNumber phone) a req)] in
                  case provider of
                    Inl e \<Rightarrow> b2c_failed sent rows [] e
                  | Inr data \<Rightarrow>
                      (case get_prop data ''conversationID'' of
                         Inl e \<Rightarrow> b2c_failed sent rows [] e
                       | Inr conversationID \<Rightarrow>
                           (case get_prop (transaction req) ''id'' of
                              Inl e \<Rightarrow> b2c_failed sent rows [] e
                            | Inr transaction_id \<Rightarrow>
                                (case store_update sb
                                        \<lparr>changes = [(''status'', JStr ''released''),
                                                    (''mpesa_conversation_id'', conversationID)],
                                         eq_column = ''id'', eq_value = transaction_id\<rparr> rows of
                                   Inl e \<Rightarrow> b2c_failed sent rows [] e
                                 | Inr rows' \<Rightarrow>
                                     (let done = (if truthy (finalProjectId req)
                                                  then [finalProjectId req] else []) in
                                      case b2c_success data of
                                        Inl e \<Rightarrow> b2c_failed sent rows' done e
                                      | Inr res \<Rightarrow>
                                          \<lparr>posted = sent, answer = res,
                                           rows_after = rows', completed = done\<rparr>))))))
      | _ \<Rightarrow> b2c_rejected rows ''Phone number and amount are required'')"

section \<open>Provider callbacks\<close>

text \<open>
  Each callback handler is one \<open>try\<close> block and a \<open>catch\<close> block that sends the same
  response. The body is whatever value the JSON middleware has put in \<open>req.body\<close>.
\<close>

definition stk_callback_try :: "(real \<Rightarrow> string) \<Rightarrow> json \<Rightarrow> js_error + http_response" where
  "stk_callback_try numstr req_body =
     then_do (destructure ''req.body'' req_body ''Body'') (\<lambda>Body.
     then_do (destructure ''Body'' Body ''stkCallback'') (\<lambda>stkCallback.
     then_do (destructure ''stkCallback'' stkCallback ''MerchantRequestID'') (\<lambda>MerchantRequestID.
     then_do (destructure ''stkCallback'' stkCallback ''CheckoutRequestID'') (\<lambda>CheckoutRequestID.
     then_do (destructure ''stkCallback'' stkCallback ''ResultCode'') (\<lambda>ResultCode.
     then_do (destructure ''stkCallback'' stkCallback ''ResultDesc'') (\<lambda>ResultDesc.
     then_do (destructure ''stkCallback'' stkCallback ''CallbackMetadata'') (\<lambda>CallbackMetadata.
       if ResultCode = JNum 0 then
         then_do (forEach_collect numstr ''Name'' ''Value'' CallbackMetadata ''Item''
                    ''CallbackMetadata?.Item?.forEach'')
           (\<lambda>metadata. Inr accepted)
       else Inr accepted)))))))"

definition stk_push_callback :: "(real \<Rightarrow> string) \<Rightarrow> json \<Rightarrow> http_response" where
  "stk_push_callback numstr req_body =
     (case stk_callback_try numstr req_body of Inr res \<Rightarrow> res | Inl e \<Rightarrow> accepted)"

definition callback_done :: "row list \<Rightarrow> store_outcome" where
  "callback_done rows = \<lparr>posted = [], answer = accepted, rows_after = rows, completed = []\<rparr>"

definition b2c_result_try ::
  "(real \<Rightarrow> string) \<Rightarrow> string \<Rightarrow> json \<Rightarrow> store_behaviour \<Rightarrow> row list \<Rightarrow> js_error + store_outcome"
where
  "b2c_result_try numstr stamp req_body sb rows =
     then_do (destructure ''req.body'' req_body ''Result'') (\<lambda>Result.
     then_do (destructure ''Result'' Result ''ResultCode'') (\<lambda>ResultCode.
     then_do (destructure ''Result'' Result ''ResultDesc'') (\<lambda>ResultDesc.
     then_do (destructure ''Result'' Result ''ResultParameters'') (\<lambda>ResultParameters.
     then_do (destructure ''Result'' Result ''ConversationID'') (\<lambda>ConversationID.
       if ResultCode = JNum 0 then
         then_do (forEach_collect numstr ''Key'' ''Value'' ResultParameters ''ResultParameter''
                    ''Result.ResultParameters?.ResultParameter?.forEach'')
           (\<lambda>parameters.
         then_do (store_update sb
             \<lparr>changes = [(''status'', JStr ''released''),
                         (''mpesa_transaction_id'', read parameters ''TransactionID''),
                         (''b2c_result_code'', JStr ''0''),
                         (''b2c_result_description'', ResultDesc),
                         (''released_at'', JStr stamp)],
              eq_column = ''mpesa_conversation_id'', eq_value = ConversationID\<rparr> rows)
           (\<lambda>rows'. Inr (callback_done rows')))
       else
         then_do (store_update sb
             \<lparr>changes = [(''status'', JStr ''failed''),
                         (''b2c_result_code'', ResultCode),
                         (''b2c_result_description'', ResultDesc)],
              eq_column = ''mpesa_conversation_id'', eq_value = ConversationID\<rparr> rows)
           (\<lambda>rows'. Inr (callback_done rows')))))))"

definition b2c_result_callback ::
  "(real \<Rightarrow> string) \<Rightarrow> string \<Rightarrow> json \<Rightarrow> store_behaviour \<Rightarrow> row list \<Rightarrow> store_outcome" where
  "b2c_result_callback numstr stamp req_body sb rows =
     (case b2c_result_try numstr stamp req_body sb rows of
        Inr out \<Rightarrow> out
      | Inl e \<Rightarrow> callback_done rows)"

definition b2c_timeout_callback :: "json \<Rightarrow> http_response" where
  "b2c_timeout_callback req_body = accepted"

section \<open>The application around the callback routes\<close>

text \<open>
  \<^verbatim>\<open>
  app.use(express.json());
  app.use("/mpesa", MpesaRoutes);
  app.use((err, req, res, next) => {
    console.error(err.stack);
    res.status(500).json({ status: "error", message: "Internal server error" });
  });
  \<close>
  The JSON middleware runs before the router. What it makes of a request is an input of
  the model: the value it puts in \<open>req.body\<close> (an object or an array), or the message of
  the error it hands to \<open>next\<close> when the body is not JSON it accepts. An error handed to
  \<open>next\<close> skips the router and reaches the error handler of the application.
\<close>

datatype body_parse = Parsed json | Unparseable string

datatype callback_route = StkPushCallback | B2cResultCallback | B2cTimeoutCallback

definition internal_server_error :: http_response where
  "internal_server_error =
     \<lparr>status = 500,
      body = JObj [(''status'', JStr ''error''), (''message'', JStr ''Internal server error'')]\<rparr>"

definition callback_endpoint ::
  "callback_route \<Rightarrow> (real \<Rightarrow> string) \<Rightarrow> string \<Rightarrow> body_parse \<Rightarrow> store_behaviour \<Rightarrow>
   row list \<Rightarrow> store_outcome"
where
  "callback_endpoint route numstr stamp parse sb rows =
     (case parse of
        Unparseable e \<Rightarrow>
          \<lparr>posted = [], answer = internal_server_error, rows_after = rows, completed = []\<rparr>
      | Parsed req_body \<Rightarrow>
          (case route of
             StkPushCallback \<Rightarrow>
               \<lparr>posted = [], answer = stk_push_callback numstr req_body,
                rows_after = rows, completed = []\<rparr>
           | B2cResultCallback \<Rightarrow> b2c_result_callback numstr stamp req_body sb rows
           | B2cTimeoutCallback \<Rightarrow>
               \<lparr>posted = [], answer = b2c_timeout_callback req_body,
                rows_after = rows, completed = []\<rparr>))"

section \<open>Reading a parameter list\<close>

text \<open>
  The value that a list of \<open>{Key, Value}\<close> items gives to the name \<open>k\<close>: the \<open>Value\<close>
  of the last item whose \<open>Key\<close> prints as \<open>k\<close>.
\<close>

fun param_value :: "(real \<Rightarrow> string) \<Rightarrow> string \<Rightarrow> json list \<Rightarrow> json option" where
  "param_value numstr k [] = None"
| "param_value numstr k (item # items) =
     (case param_value numstr k items of
        Some v \<Rightarrow> Some v
      | None \<Rightarrow>
          (case (get_prop item ''Key'', get_prop item ''Value'') of
             (Inr key, Inr v) \<Rightarrow> if js_to_string numstr key = Inr k then Some v else None
           | _ \<Rightarrow> None))"

section \<open>Sample data\<close>

text \<open>
  The provider's public sandbox: short code 174379 and its pass key, which are the ones
  inside the literal password of the payloads (made at 2021-06-28 09:24:08). The charge
  request is the one that \<open>test-mpesa.sh\<close> posts.
\<close>

definition sandbox_config :: config where
  "sandbox_config =
     \<lparr>consumerKey = Some ''key'', consumerSecret = Some ''secret'',
      shortCode = Some ''174379'',
      passKey = Some ''bfb279f9aa9bdbcf158e97dd71a467cd2e0c893059b10f78e6b72ada1ed2c919'',
      initiatorName = Some ''testapi'', securityCredential = Some ''credential'',
      environment = ''sandbox'', callbackBaseUrl = ''https://yourdomain.com/mpesa''\<rparr>"

definition test_charge :: stk_request where
  "test_charge =
     \<lparr>phoneNumber = Some ''254746221954'', amount = Some 10,
      accountReference = Some ''TEST_001'', transactionDesc = Some ''Test Payment''\<rparr>"

text \<open>
  A payout request for a transaction, the provider's acknowledgment of it, two rows held
  in escrow, and a payout result as the provider posts it to the result callback.
\<close>

definition payout_request :: "json \<Rightarrow> b2c_request" where
  "payout_request tx =
     \<lparr>phoneNumber = Some ''0746221954'', amount = Some 100, transaction = tx,
      finalProjectId = JUndefined, remarks = None, occasion = None\<rparr>"

definition payout_ack :: json where
  "payout_ack =
     JObj [(''ConversationID'', JStr ''AG_20261103_2010325b025970fbc403''),
           (''OriginatorConversationID'', JStr ''600997_Test_32et3241ed8yu''),
           (''ResponseCode'', JStr ''0''),
           (''ResponseDescription'', JStr ''Accept the service request successfully.'')]"

definition escrow_rows :: "row list" where
  "escrow_rows =
     [[(''id'', JStr ''tx1''), (''status'', JStr ''held_in_escrow''),
       (''mpesa_conversation_id'', JNull)],
      [(''id'', JStr ''tx2''), (''status'', JStr ''held_in_escrow''),
       (''mpesa_conversation_id'', JStr ''AG_20261102_7071'')]]"

definition result_body :: "string \<Rightarrow> real \<Rightarrow> json" where
  "result_body conv code =
     JObj [(''Result'',
            JObj [(''ResultCode'', JNum code),
                  (''ResultDesc'', JStr ''The service request is processed.''),
                  (''ConversationID'', JStr conv),
                  (''ResultParameters'',
                   JObj [(''ResultParameter'',
                          JArr [JObj [(''Key'', JStr ''TransactionAmount''), (''Value'', JNum 100)],
                                JObj [(''Key'', JStr ''TransactionID''),
                                      (''Value'', JStr ''SK38L13J9Q'')]])])])]"

section \<open>Properties of phone normalisation\<close>

lemma spec_strip_filter: "spec_strip p = filter (\<lambda>c. \<not> strip_class c) p"
  by (induction p) (simp_all add: strip_class_def)

lemma spec_trunk_eq:
  "spec_trunk s = (if startsWith s ''0'' then ''254'' @ slice_from 1 s else s)"
  by (cases s) (simp_all add: startsWith_def slice_from_def)

lemma spec_country_eq:
  "spec_country s = (if \<not> startsWith s ''254'' then ''254'' @ s else s)"
  by (induction s rule: spec_country.induct) (auto simp: startsWith_def)

lemma formatPhoneNumber_spec: "formatPhoneNumber p = spec_normalize p"
  by (simp add: formatPhoneNumber_def spec_normalize_def spec_strip_filter spec_trunk_eq
      spec_country_eq Let_def)

lemma not_strip_digits:
  "\<not> strip_class CHR ''2''" "\<not> strip_class CHR ''5''" "\<not> strip_class CHR ''4''"
  by (simp_all add: strip_class_def is_space_def)

lemma formatPhoneNumber_prefix: "startsWith (formatPhoneNumber p) ''254''"
  by (simp add: formatPhoneNumber_def Let_def startsWith_def)

lemma filter_drop_clean: "filter P (drop n (filter P xs)) = drop n (filter P xs)"
proof -
  have "\<forall>x \<in> set (drop n (filter P xs)). P x"
    using set_drop_subset [of n "filter P xs"] by auto
  then show ?thesis by (simp only: filter_True)
qed

lemma formatPhoneNumber_clean:
  "filter (\<lambda>c. \<not> strip_class c) (formatPhoneNumber p) = formatPhoneNumber p"
  by (simp add: formatPhoneNumber_def Let_def not_strip_digits slice_from_def filter_drop_clean)

text \<open>
  C9: \<open>formatPhoneNumber\<close> equals the reference rule on every input; the three sample
  numbers \<open>0746221954\<close>, \<open>+254746221954\<close> and \<open>746221954\<close> all normalise to
  \<open>254746221954\<close>; and normalising a normalised number changes nothing.
\<close>

theorem formatPhoneNumber_reference:
  "formatPhoneNumber p = spec_normalize p \<and>
   formatPhoneNumber ''0746221954'' = ''254746221954'' \<and>
   formatPhoneNumber ''+254746221954'' = ''254746221954'' \<and>
   formatPhoneNumber ''746221954'' = ''254746221954'' \<and>
   formatPhoneNumber (formatPhoneNumber p) = formatPhoneNumber p"
proof -
  have ex1: "formatPhoneNumber ''0746221954'' = ''254746221954''"
    by (simp add: formatPhoneNumber_def startsWith_def slice_from_def strip_class_def is_space_def)
  have ex2: "formatPhoneNumber ''+254746221954'' = ''254746221954''"
    by (simp add: formatPhoneNumber_def startsWith_def slice_from_def strip_class_def is_space_def)
  have ex3: "formatPhoneNumber ''746221954'' = ''254746221954''"
    by (simp add: formatPhoneNumber_def startsWith_def slice_from_def strip_class_def is_space_def)
  have idem: "formatPhoneNumber (formatPhoneNumber p) = formatPhoneNumber p"
  proof -
    let ?r = "formatPhoneNumber p"
    have pre: "startsWith ?r ''254''" by (rule formatPhoneNumber_prefix)
    then have no0: "\<not> startsWith ?r ''0''"
      by (cases ?r) (auto simp: startsWith_def)
    have "formatPhoneNumber ?r =
        (let cleaned = ?r;
             cleaned = (if startsWith cleaned ''0'' then ''254'' @ slice_from 1 cleaned else cleaned);
             cleaned = (if \<not> startsWith cleaned ''254'' then ''254'' @ cleaned else cleaned)
         in cleaned)"
      unfolding formatPhoneNumber_def [of ?r] formatPhoneNumber_clean ..
    with pre no0 show ?thesis by (simp add: Let_def)
  qed
  from formatPhoneNumber_spec ex1 ex2 ex3 idem show ?thesis by blast
qed

section \<open>Properties of the access token cache\<close>

lemma single_flight_init: "single_flight init"
  by (simp add: single_flight_def init_def empty_cache_def)

lemma acquisition_body_cases:
  "acquisition_body reply now c =
     (if attempt_fails reply
      then (Inl (Error ''Failed to generate access token''),
            c\<lparr>token := None, expiresAt := 0, inFlight := None\<rparr>)
      else (Inr (the (access_token reply)),
            c\<lparr>token := access_token reply,
              expiresAt := now + (case expires_in reply of None \<Rightarrow> 3599
                                   | Some n \<Rightarrow> if n = 0 then 3599 else n) * 1000
                            - ACCESS_TOKEN_BUFFER_MS,
              inFlight := None\<rparr>))"
  by (cases reply)
     (auto simp: acquisition_body_def acquisition_failed_def Let_def split: option.splits)

lemma acquisition_body_inFlight: "inFlight (snd (acquisition_body reply now c)) = None"
  by (simp add: acquisition_body_cases)

lemma acquisition_body_token: "token (snd (acquisition_body reply now c)) \<noteq> Some []"
  by (cases reply) (auto simp: acquisition_body_cases)

lemma single_flight_call: "single_flight w \<Longrightarrow> single_flight (generateAccessToken c now w)"
  by (auto simp: single_flight_def generateAccessToken_def Let_def list_all_iff
      split: option.splits)

lemma single_flight_settles:
  "single_flight w \<Longrightarrow> single_flight (acquisition_settles h reply now w)"
  using acquisition_body_inFlight [of reply now "cache w"]
    acquisition_body_token [of reply now "cache w"]
  by (auto simp: single_flight_def acquisition_settles_def Let_def list_all_iff
      split: option.splits prod.splits)

lemma single_flight_step: "single_flight w \<Longrightarrow> single_flight (step w e)"
  by (cases e) (simp_all add: single_flight_call single_flight_settles)

lemma single_flight_foldl: "single_flight w \<Longrightarrow> single_flight (foldl step w evs)"
  by (induction evs arbitrary: w) (simp_all add: single_flight_step)

lemma single_flight_run: "single_flight (run evs)"
  by (simp add: run_def single_flight_foldl single_flight_init)

lemma awaiting_all:
  "list_all (\<lambda>(c, h'). h' = h) ws \<Longrightarrow> awaiting h ws = map fst ws"
  by (induction ws) (auto simp: awaiting_def)

lemma filter_none:
  "list_all (\<lambda>(c, h'). h' = h) ws \<Longrightarrow> filter (\<lambda>(c, h'). h' \<noteq> h) ws = []"
  by (induction ws) auto

lemma settles_in_flight:
  assumes inv: "single_flight w" and h: "h \<in> set (outstanding w)"
  shows "acquisition_settles h reply now w =
     w\<lparr>cache := snd (acquisition_body reply now (cache w)),
       outstanding := [],
       waiting := [],
       returned := returned w @
         map (\<lambda>c. (c, fst (acquisition_body reply now (cache w)))) (map fst (waiting w))\<rparr>"
proof -
  from inv h have fl: "inFlight (cache w) = Some h" and out: "outstanding w = [h]"
    by (auto simp: single_flight_def split: option.splits)
  from inv fl have all: "list_all (\<lambda>(c, h'). h' = h) (waiting w)"
    by (auto simp: single_flight_def list_all_iff)
  show ?thesis
    using h out awaiting_all [OF all] filter_none [OF all]
    by (simp add: acquisition_settles_def split_beta Let_def)
qed

text \<open>
  C1: single-flight token acquisition. In every state \<open>w\<close> a run of calls and provider
  answers can reach: at most one provider authentication request is outstanding; every
  waiting caller awaits the handle in \<open>inFlight\<close>, which is the one outstanding request;
  a call made while the in-flight marker is set sends no provider request, and a caller
  that finds no valid cached token joins the waiters of the pending handle; and when the
  provider answers, every waiter receives one and the same result (token or error) and
  nothing stays outstanding.
\<close>

theorem single_flight_acquisition:
  assumes w: "w = run evs"
  shows "length (outstanding w) \<le> 1 \<and>
     (\<forall>(c, h) \<in> set (waiting w). inFlight (cache w) = Some h \<and> outstanding w = [h]) \<and>
     (inFlight (cache w) \<noteq> None \<longrightarrow>
        issued (generateAccessToken c now w) = issued w \<and>
        outstanding (generateAccessToken c now w) = outstanding w) \<and>
     (cached_token now (cache w) = None \<longrightarrow> inFlight (cache w) = Some h \<longrightarrow>
        waiting (generateAccessToken c now w) = waiting w @ [(c, h)]) \<and>
     (h \<in> set (outstanding w) \<longrightarrow>
        (\<exists>res. returned (acquisition_settles h reply now' w) =
                 returned w @ map (\<lambda>c. (c, res)) (map fst (waiting w))) \<and>
        waiting (acquisition_settles h reply now' w) = [] \<and>
        outstanding (acquisition_settles h reply now' w) = [])"
proof -
  have inv: "single_flight w" unfolding w by (rule single_flight_run)
  have one: "length (outstanding w) \<le> 1"
    using inv by (simp add: single_flight_def split: option.splits)
  have same: "\<forall>(c, h) \<in> set (waiting w). inFlight (cache w) = Some h \<and> outstanding w = [h]"
    using inv by (auto simp: single_flight_def list_all_iff)
  have quiet: "inFlight (cache w) \<noteq> None \<longrightarrow>
        issued (generateAccessToken c now w) = issued w \<and>
        outstanding (generateAccessToken c now w) = outstanding w"
    by (auto simp: generateAccessToken_def split: option.splits)
  have joins: "cached_token now (cache w) = None \<longrightarrow> inFlight (cache w) = Some h \<longrightarrow>
        waiting (generateAccessToken c now w) = waiting w @ [(c, h)]"
    by (simp add: generateAccessToken_def)
  have settle: "h \<in> set (outstanding w) \<longrightarrow>
        (\<exists>res. returned (acquisition_settles h reply now' w) =
                 returned w @ map (\<lambda>c. (c, res)) (map fst (waiting w))) \<and>
        waiting (acquisition_settles h reply now' w) = [] \<and>
        outstanding (acquisition_settles h reply now' w) = []"
    by (simp add: settles_in_flight [OF inv])
  from one same quiet joins settle show ?thesis by blast
qed

text \<open>Two callers share one request, a third joins them, and both get the same token.\<close>

theorem single_flight_acquisition_witness:
  "length (outstanding (run [Call 1 0, Call 2 5])) \<le> 1 \<and>
   waiting (run [Call 1 0, Call 2 5]) = [(1, 0), (2, 0)] \<and>
   inFlight (cache (run [Call 1 0, Call 2 5])) = Some 0 \<and>
   outstanding (run [Call 1 0, Call 2 5]) = [0] \<and>
   issued (generateAccessToken 3 7 (run [Call 1 0, Call 2 5])) = 1 \<and>
   waiting (generateAccessToken 3 7 (run [Call 1 0, Call 2 5])) = [(1, 0), (2, 0), (3, 0)] \<and>
   returned (acquisition_settles 0 (AuthReplied (Some ''tok'') (Some 3599)) 20
      (run [Call 1 0, Call 2 5])) = [(1, Inr ''tok''), (2, Inr ''tok'')] \<and>
   outstanding (acquisition_settles 0 (AuthReplied (Some ''tok'') (Some 3599)) 20
      (run [Call 1 0, Call 2 5])) = []"
proof -
  have w: "run [Call 1 0, Call 2 5] =
    \<lparr>cache = \<lparr>token = None, expiresAt = 0, inFlight = Some 0\<rparr>, outstanding = [0],
     issued = 1, waiting = [(1, 0), (2, 0)], returned = []\<rparr>"
    by (simp add: run_def init_def empty_cache_def generateAccessToken_def cached_token_def)
  show ?thesis
    using single_flight_acquisition [OF refl, of "[Call 1 0, Call 2 5]" 3 7 0
        "AuthReplied (Some ''tok'') (Some 3599)" 20]
    unfolding w
    by (simp add: generateAccessToken_def cached_token_def acquisition_settles_def
        acquisition_body_def awaiting_def)
qed

text \<open>
  C2: in every reachable state, a call made while a token is cached and the time is
  strictly before \<open>expiresAt\<close> returns that token and changes nothing else (no provider
  request is sent); a call made while no token is cached or the time has reached
  \<open>expiresAt\<close>, with no acquisition in flight, sends exactly one provider request and
  holds its handle in \<open>inFlight\<close>.
\<close>

theorem cached_or_fresh:
  assumes w: "w = run evs"
  shows "(token (cache w) = Some t \<and> now < expiresAt (cache w) \<longrightarrow>
            generateAccessToken c now w = w\<lparr>returned := returned w @ [(c, Inr t)]\<rparr>) \<and>
         ((token (cache w) = None \<or> expiresAt (cache w) \<le> now) \<and> inFlight (cache w) = None \<longrightarrow>
            issued (generateAccessToken c now w) = issued w + 1 \<and>
            outstanding (generateAccessToken c now w) = [issued w] \<and>
            inFlight (cache (generateAccessToken c now w)) = Some (issued w) \<and>
            returned (generateAccessToken c now w) = returned w)"
proof -
  have inv: "single_flight w" unfolding w by (rule single_flight_run)
  then have ne: "token (cache w) \<noteq> Some []" by (simp add: single_flight_def)
  have hit: "token (cache w) = Some t \<and> now < expiresAt (cache w) \<longrightarrow>
            generateAccessToken c now w = w\<lparr>returned := returned w @ [(c, Inr t)]\<rparr>"
    using ne by (auto simp: generateAccessToken_def cached_token_def)
  have miss: "(token (cache w) = None \<or> expiresAt (cache w) \<le> now) \<and> inFlight (cache w) = None \<longrightarrow>
            issued (generateAccessToken c now w) = issued w + 1 \<and>
            outstanding (generateAccessToken c now w) = [issued w] \<and>
            inFlight (cache (generateAccessToken c now w)) = Some (issued w) \<and>
            returned (generateAccessToken c now w) = returned w"
    using inv
    by (auto simp: generateAccessToken_def cached_token_def single_flight_def Let_def
        split: option.splits)
  from hit miss show ?thesis by blast
qed

text \<open>
  A token obtained at time 20 with a declared life of 3599 s expires at 3539020: one
  millisecond earlier it is served from the cache, at that time a new request is sent.
\<close>

theorem cached_or_fresh_witness:
  "token (cache (run [Call 1 0, Answer 0 (AuthReplied (Some ''tok'') (Some 3599)) 20]))
     = Some ''tok'' \<and>
   expiresAt (cache (run [Call 1 0, Answer 0 (AuthReplied (Some ''tok'') (Some 3599)) 20]))
     = 3539020 \<and>
   generateAccessToken 2 3539019 (run [Call 1 0, Answer 0 (AuthReplied (Some ''tok'') (Some 3599)) 20])
     = \<lparr>cache = \<lparr>token = Some ''tok'', expiresAt = 3539020, inFlight = None\<rparr>,
        outstanding = [], issued = 1, waiting = [],
        returned = [(1, Inr ''tok''), (2, Inr ''tok'')]\<rparr> \<and>
   issued (generateAccessToken 2 3539020
     (run [Call 1 0, Answer 0 (AuthReplied (Some ''tok'') (Some 3599)) 20])) = 2 \<and>
   outstanding (generateAccessToken 2 3539020
     (run [Call 1 0, Answer 0 (AuthReplied (Some ''tok'') (Some 3599)) 20])) = [1]"
proof -
  have w: "run [Call 1 0, Answer 0 (AuthReplied (Some ''tok'') (Some 3599)) 20] =
    \<lparr>cache = \<lparr>token = Some ''tok'', expiresAt = 3539020, inFlight = None\<rparr>,
     outstanding = [], issued = 1, waiting = [], returned = [(1, Inr ''tok'')]\<rparr>"
    by (simp add: run_def init_def empty_cache_def generateAccessToken_def cached_token_def
        acquisition_settles_def acquisition_body_def awaiting_def ACCESS_TOKEN_BUFFER_MS_def)
  show ?thesis
    using cached_or_fresh [OF refl,
        of "[Call 1 0, Answer 0 (AuthReplied (Some ''tok'') (Some 3599)) 20]" "''tok''" 3539019 2]
      cached_or_fresh [OF refl,
        of "[Call 1 0, Answer 0 (AuthReplied (Some ''tok'') (Some 3599)) 20]" "''tok''" 3539020 2]
    unfolding w by simp
qed

text \<open>
  C3: a failed acquisition. Whatever cache \<open>c\<close> the body finds, it leaves \<open>inFlight\<close>
  cleared; and when the attempt fails (the call is rejected or the answer carries no
  token) it leaves the empty cache, a token cached before included, and throws
  \<open>new Error("Failed to generate access token")\<close> in place of whatever was thrown inside.
  In every reachable state in which the provider answers an outstanding request, the
  in-flight marker is cleared; after a failed attempt the cache is the empty cache, every
  caller waiting on the request gets that error, and the next call sends a fresh provider
  request.
\<close>

theorem failed_acquisition_resets:
  assumes w: "w = run evs" and h: "h \<in> set (outstanding w)"
    and w': "w' = acquisition_settles h reply now w"
  shows "inFlight (cache w') = None \<and>
     inFlight (snd (acquisition_body reply now c)) = None \<and>
     (attempt_fails reply \<longrightarrow>
        acquisition_body reply now c =
          (Inl (Error ''Failed to generate access token''),
           \<lparr>token = None, expiresAt = 0, inFlight = None\<rparr>) \<and>
        cache w' = empty_cache \<and>
        returned w' = returned w @
          map (\<lambda>c. (c, Inl (Error ''Failed to generate access token''))) (map fst (waiting w)) \<and>
        waiting w' = [] \<and>
        issued (generateAccessToken c' later w') = issued w + 1 \<and>
        outstanding (generateAccessToken c' later w') = [issued w])"
proof -
  have inv: "single_flight w" unfolding w by (rule single_flight_run)
  note eq = settles_in_flight [OF inv h, of reply now]
  have cleared: "inFlight (cache w') = None"
    unfolding w' eq by (simp add: acquisition_body_inFlight)
  have any_cleared: "inFlight (snd (acquisition_body reply now c)) = None"
    by (rule acquisition_body_inFlight)
  have any_reset: "attempt_fails reply \<longrightarrow>
        acquisition_body reply now c =
          (Inl (Error ''Failed to generate access token''),
           \<lparr>token = None, expiresAt = 0, inFlight = None\<rparr>)"
    by (simp add: acquisition_body_cases)
  have reset: "attempt_fails reply \<longrightarrow>
        cache w' = empty_cache \<and>
        returned w' = returned w @
          map (\<lambda>c. (c, Inl (Error ''Failed to generate access token''))) (map fst (waiting w)) \<and>
        waiting w' = [] \<and>
        issued (generateAccessToken c' later w') = issued w + 1 \<and>
        outstanding (generateAccessToken c' later w') = [issued w]"
    unfolding w' eq
    by (simp add: acquisition_body_cases empty_cache_def generateAccessToken_def
        cached_token_def Let_def)
  from cleared any_cleared any_reset reset show ?thesis by blast
qed

text \<open>
  A token obtained at time 20 has expired when caller 2 asks at 3539020, so request 1 is
  sent while the stale token is still in the cache. The request times out: the stale
  token is cleared, caller 2 gets the error, and caller 3 then starts request 2. An
  answer with an empty \<open>access_token\<close> clears the same cache in the same way.
\<close>

theorem failed_acquisition_resets_witness:
  "cache (run [Call 1 0, Answer 0 (AuthReplied (Some ''tok'') (Some 3599)) 20, Call 2 3539020]) =
     \<lparr>token = Some ''tok'', expiresAt = 3539020, inFlight = Some 1\<rparr> \<and>
   1 \<in> set (outstanding
     (run [Call 1 0, Answer 0 (AuthReplied (Some ''tok'') (Some 3599)) 20, Call 2 3539020])) \<and>
   attempt_fails (AuthRejected (Error ''timeout of 10000ms exceeded'')) \<and>
   attempt_fails (AuthReplied (Some []) (Some 3599)) \<and>
   cache (acquisition_settles 1 (AuthRejected (Error ''timeout of 10000ms exceeded'')) 3549020
      (run [Call 1 0, Answer 0 (AuthReplied (Some ''tok'') (Some 3599)) 20, Call 2 3539020])) =
     \<lparr>token = None, expiresAt = 0, inFlight = None\<rparr> \<and>
   returned (acquisition_settles 1 (AuthRejected (Error ''timeout of 10000ms exceeded'')) 3549020
      (run [Call 1 0, Answer 0 (AuthReplied (Some ''tok'') (Some 3599)) 20, Call 2 3539020])) =
     [(1, Inr ''tok''), (2, Inl (Error ''Failed to generate access token''))] \<and>
   outstanding (generateAccessToken 3 3549021
      (acquisition_settles 1 (AuthRejected (Error ''timeout of 10000ms exceeded'')) 3549020
        (run [Call 1 0, Answer 0 (AuthReplied (Some ''tok'') (Some 3599)) 20,
              Call 2 3539020]))) = [2] \<and>
   acquisition_body (AuthReplied (Some []) (Some 3599)) 3549020
      \<lparr>token = Some ''tok'', expiresAt = 3539020, inFlight = Some 1\<rparr> =
     (Inl (Error ''Failed to generate access token''),
      \<lparr>token = None, expiresAt = 0, inFlight = None\<rparr>)"
proof -
  have w: "run [Call 1 0, Answer 0 (AuthReplied (Some ''tok'') (Some 3599)) 20, Call 2 3539020] =
    \<lparr>cache = \<lparr>token = Some ''tok'', expiresAt = 3539020, inFlight = Some 1\<rparr>,
     outstanding = [1], issued = 2, waiting = [(2, 1)], returned = [(1, Inr ''tok'')]\<rparr>"
    by (simp add: run_def init_def empty_cache_def generateAccessToken_def cached_token_def
        acquisition_settles_def acquisition_body_def awaiting_def ACCESS_TOKEN_BUFFER_MS_def)
  have h: "1 \<in> set (outstanding
     (run [Call 1 0, Answer 0 (AuthReplied (Some ''tok'') (Some 3599)) 20, Call 2 3539020]))"
    unfolding w by simp
  have f1: "attempt_fails (AuthRejected (Error ''timeout of 10000ms exceeded''))"
    and f2: "attempt_fails (AuthReplied (Some []) (Some 3599))" by simp_all
  show ?thesis
    using h f1 f2
      failed_acquisition_resets [OF refl h refl,
        where reply = "AuthRejected (Error ''timeout of 10000ms exceeded'')"
          and now = 3549020 and c' = 3 and later = 3549021
          and c = "\<lparr>token = Some ''tok'', expiresAt = 3539020, inFlight = Some 1\<rparr>"]
      failed_acquisition_resets [OF refl h refl,
        where reply = "AuthReplied (Some []) (Some 3599)"
          and now = 3549020 and c' = 3 and later = 3549021
          and c = "\<lparr>token = Some ''tok'', expiresAt = 3539020, inFlight = Some 1\<rparr>"]
    unfolding w
    by (simp add: empty_cache_def)
qed

section \<open>Properties of the callbacks\<close>

lemma then_do_Inr: "then_do m f = Inr y \<longleftrightarrow> (\<exists>x. m = Inr x \<and> f x = Inr y)"
  by (cases m) (simp_all add: then_do_def)

lemma destructure_Inr: "get_prop v k = Inr x \<Longrightarrow> destructure src v k = Inr x"
  by (cases v) (simp_all add: destructure_def)

lemma stk_callback_try_accepted: "stk_callback_try numstr b = Inr res \<Longrightarrow> res = accepted"
  by (auto simp: stk_callback_try_def then_do_Inr split: if_splits)

lemma b2c_result_try_accepted:
  "b2c_result_try numstr stamp b sb rows = Inr out \<Longrightarrow> answer out = accepted \<and> posted out = []"
  by (auto simp: b2c_result_try_def then_do_Inr callback_done_def split: if_splits)

lemma handlers_always_accept:
  "stk_push_callback numstr req_body = accepted \<and>
   answer (b2c_result_callback numstr stamp req_body sb rows) = accepted \<and>
   b2c_timeout_callback req_body = accepted"
proof -
  have stk: "stk_push_callback numstr req_body = accepted"
    by (auto simp: stk_push_callback_def dest: stk_callback_try_accepted split: sum.splits)
  have b2c: "answer (b2c_result_callback numstr stamp req_body sb rows) = accepted"
    by (auto simp: b2c_result_callback_def callback_done_def dest: b2c_result_try_accepted
        split: sum.splits)
  from stk b2c show ?thesis by (simp add: b2c_timeout_callback_def)
qed

text \<open>
  C5: what a callback endpoint answers. Once the JSON middleware has parsed the body,
  each of the three handlers answers status 200 and the envelope
  \<open>{ResultCode: 0, ResultDesc: "Accepted"}\<close>, whatever the parsed value is, whatever the
  store does and whether or not the \<open>try\<close> block throws. A body that the JSON middleware
  cannot parse, such as one cut off after \<open>{"Body":\<close>, does not reach the handler: on
  each of the three routes the provider is answered status 500 and
  \<open>{status: "error", message: "Internal server error"}\<close>.
\<close>

theorem unparseable_callback_answered_500:
  "answer (callback_endpoint route numstr stamp (Unparseable msg) sb rows) =
     \<lparr>status = 500,
      body = JObj [(''status'', JStr ''error''), (''message'', JStr ''Internal server error'')]\<rparr> \<and>
   answer (callback_endpoint StkPushCallback numstr stamp
      (Unparseable ''Unexpected end of JSON input'') sb rows) \<noteq>
     \<lparr>status = 200,
      body = JObj [(''ResultCode'', JNum 0), (''ResultDesc'', JStr ''Accepted'')]\<rparr> \<and>
   answer (callback_endpoint route numstr stamp (Parsed req_body) sb rows) =
     \<lparr>status = 200,
      body = JObj [(''ResultCode'', JNum 0), (''ResultDesc'', JStr ''Accepted'')]\<rparr>"
proof -
  have parsed: "answer (callback_endpoint route numstr stamp (Parsed req_body) sb rows) =
      accepted"
    using handlers_always_accept [of numstr req_body stamp sb rows]
    by (cases route) (simp_all add: callback_endpoint_def)
  then show ?thesis
    by (simp add: callback_endpoint_def internal_server_error_def accepted_def)
qed

lemma map_of_set_col: "map_of (set_col k v r) k' = (if k' = k then Some v else map_of r k')"
  by (induction r) auto

lemma own_assign:
  "k \<noteq> ''__proto__'' \<Longrightarrow>
   map_of (own (assign obj key v)) k = (if key = k then Some v else map_of (own obj) k)"
  by (auto simp: assign_def)

lemma collect_own:
  "collect numstr ''Key'' ''Value'' items obj = Inr res \<Longrightarrow> k \<noteq> ''__proto__'' \<Longrightarrow>
   map_of (own res) k =
     (case param_value numstr k items of Some v \<Rightarrow> Some v | None \<Rightarrow> map_of (own obj) k)"
proof (induction items arbitrary: obj)
  case Nil
  then show ?case by simp
next
  case (Cons item items)
  from Cons.prems(1) obtain key v name where
    key: "get_prop item ''Key'' = Inr key" and v: "get_prop item ''Value'' = Inr v" and
    name: "js_to_string numstr key = Inr name" and
    rest: "collect numstr ''Key'' ''Value'' items (assign obj name v) = Inr res"
    by (auto simp: then_do_Inr)
  from Cons.IH [OF rest Cons.prems(2)] key v name Cons.prems(2) show ?case
    by (simp add: own_assign split: option.splits)
qed

lemma forEach_collect_read:
  assumes "forEach_collect numstr ''Key'' ''Value'' holder ''ResultParameter'' callee = Inr parameters"
    and "get_prop holder ''ResultParameter'' = Inr (JArr items)"
    and "param_value numstr ''TransactionID'' items = Some tid"
  shows "read parameters ''TransactionID'' = tid"
proof -
  from assms(2) have "holder \<noteq> JUndefined" "holder \<noteq> JNull" by auto
  with assms(1,2) have "collect numstr ''Key'' ''Value'' items empty_object = Inr parameters"
    by (simp add: forEach_collect_def then_do_def)
  from collect_own [OF this, of "''TransactionID''"] assms(3) show ?thesis
    by (simp add: read_def)
qed

lemma apply_update_length: "length (apply_update u rows) = length rows"
  by (simp add: apply_update_def)

lemma apply_update_nth:
  "i < length rows \<Longrightarrow>
   apply_update u rows ! i =
     (if row_matches (rows ! i) (eq_column u) (eq_value u) then patch_row (changes u) (rows ! i)
      else rows ! i)"
  by (simp add: apply_update_def)

text \<open>
  C6: a payout-result callback whose \<open>Result\<close> carries the numeric code \<open>n\<close>, the
  description \<open>d\<close> and the conversation id \<open>cid\<close>, on a store that applies the update.
  Rows whose \<open>mpesa_conversation_id\<close> is not \<open>cid\<close> stay as they are. When \<open>n = 0\<close>
  and the result parameters flatten into the map \<open>parameters\<close>, every row with that
  conversation id gets status \<open>released\<close>, the description \<open>d\<close> and the transaction id
  \<open>parameters.TransactionID\<close>, which is the \<open>Value\<close> of the last parameter whose \<open>Key\<close>
  is \<open>TransactionID\<close>. When \<open>n \<noteq> 0\<close>, every such row gets status \<open>failed\<close>, the code
  \<open>n\<close> and the description \<open>d\<close>.
\<close>

theorem payout_result_reconciles:
  assumes res: "get_prop req_body ''Result'' = Inr result"
    and code: "get_prop result ''ResultCode'' = Inr (JNum n)"
    and desc: "get_prop result ''ResultDesc'' = Inr (JStr d)"
    and cid: "get_prop result ''ConversationID'' = Inr cid"
    and holder: "get_prop result ''ResultParameters'' = Inr holder"
    and out: "rows' = rows_after (b2c_result_callback numstr stamp req_body Applies rows)"
  shows "length rows' = length rows \<and>
    (\<forall>i<length rows. \<not> row_matches (rows ! i) ''mpesa_conversation_id'' cid \<longrightarrow>
        rows' ! i = rows ! i) \<and>
    (n = 0 \<longrightarrow>
       forEach_collect numstr ''Key'' ''Value'' holder ''ResultParameter''
          ''Result.ResultParameters?.ResultParameter?.forEach'' = Inr parameters \<longrightarrow>
         (\<forall>i<length rows. row_matches (rows ! i) ''mpesa_conversation_id'' cid \<longrightarrow>
            map_of (rows' ! i) ''status'' = Some (JStr ''released'') \<and>
            map_of (rows' ! i) ''b2c_result_description'' = Some (JStr d) \<and>
            (read parameters ''TransactionID'' \<noteq> JUndefined \<longrightarrow>
               map_of (rows' ! i) ''mpesa_transaction_id'' =
                 Some (read parameters ''TransactionID''))) \<and>
         (\<forall>items tid. get_prop holder ''ResultParameter'' = Inr (JArr items) \<longrightarrow>
            param_value numstr ''TransactionID'' items = Some tid \<longrightarrow>
            read parameters ''TransactionID'' = tid)) \<and>
    (n \<noteq> 0 \<longrightarrow>
       (\<forall>i<length rows. row_matches (rows ! i) ''mpesa_conversation_id'' cid \<longrightarrow>
          map_of (rows' ! i) ''status'' = Some (JStr ''failed'') \<and>
          map_of (rows' ! i) ''b2c_result_code'' = Some (JNum n) \<and>
          map_of (rows' ! i) ''b2c_result_description'' = Some (JStr d)))"
proof -
  let ?ok = "\<lambda>parameters.
      \<lparr>changes = [(''status'', JStr ''released''),
                  (''mpesa_transaction_id'', read parameters ''TransactionID''),
                  (''b2c_result_code'', JStr ''0''),
                  (''b2c_result_description'', JStr d),
                  (''released_at'', JStr stamp)],
       eq_column = ''mpesa_conversation_id'', eq_value = cid\<rparr>"
  let ?bad = "\<lparr>changes = [(''status'', JStr ''failed''),
                  (''b2c_result_code'', JNum n),
                  (''b2c_result_description'', JStr d)],
       eq_column = ''mpesa_conversation_id'', eq_value = cid\<rparr>"
  have try_eq: "b2c_result_try numstr stamp req_body Applies rows =
      (if n = 0 then
         then_do (forEach_collect numstr ''Key'' ''Value'' holder ''ResultParameter''
          ''Result.ResultParameters?.ResultParameter?.forEach'')
           (\<lambda>parameters. Inr (callback_done (apply_update (?ok parameters) rows)))
       else Inr (callback_done (apply_update ?bad rows)))"
    using res code desc cid holder by (simp add: b2c_result_try_def then_do_def destructure_Inr)
  have bad: "n \<noteq> 0 \<Longrightarrow> rows' = apply_update ?bad rows"
    unfolding out b2c_result_callback_def try_eq by (simp add: callback_done_def)
  have ok: "n = 0 \<Longrightarrow> forEach_collect numstr ''Key'' ''Value'' holder ''ResultParameter''
          ''Result.ResultParameters?.ResultParameter?.forEach'' = Inr p
      \<Longrightarrow> rows' = apply_update (?ok p) rows" for p
    unfolding out b2c_result_callback_def try_eq by (simp add: callback_done_def then_do_def)
  have thrown: "n = 0 \<Longrightarrow> forEach_collect numstr ''Key'' ''Value'' holder ''ResultParameter''
          ''Result.ResultParameters?.ResultParameter?.forEach'' = Inl e
      \<Longrightarrow> rows' = rows" for e
    unfolding out b2c_result_callback_def try_eq by (simp add: callback_done_def then_do_def)
  have shape: "rows' = rows \<or> (\<exists>u. eq_column u = ''mpesa_conversation_id'' \<and> eq_value u = cid \<and>
      rows' = apply_update u rows)"
  proof (cases "n = 0")
    case True
    show ?thesis
    proof (cases "forEach_collect numstr ''Key'' ''Value'' holder ''ResultParameter''
          ''Result.ResultParameters?.ResultParameter?.forEach''")
      case (Inl e)
      with thrown [OF True] show ?thesis by simp
    next
      case (Inr p)
      from ok [OF True Inr] show ?thesis by (intro disjI2 exI [of _ "?ok p"]) simp
    qed
  next
    case False
    from bad [OF False] show ?thesis by (intro disjI2 exI [of _ ?bad]) simp
  qed
  have len: "length rows' = length rows"
    using shape by (auto simp: apply_update_length)
  have others: "\<forall>i<length rows. \<not> row_matches (rows ! i) ''mpesa_conversation_id'' cid \<longrightarrow>
        rows' ! i = rows ! i"
    using shape by (auto simp: apply_update_nth)
  have released: "n = 0 \<longrightarrow>
       forEach_collect numstr ''Key'' ''Value'' holder ''ResultParameter''
          ''Result.ResultParameters?.ResultParameter?.forEach'' = Inr parameters \<longrightarrow>
         (\<forall>i<length rows. row_matches (rows ! i) ''mpesa_conversation_id'' cid \<longrightarrow>
            map_of (rows' ! i) ''status'' = Some (JStr ''released'') \<and>
            map_of (rows' ! i) ''b2c_result_description'' = Some (JStr d) \<and>
            (read parameters ''TransactionID'' \<noteq> JUndefined \<longrightarrow>
               map_of (rows' ! i) ''mpesa_transaction_id'' =
                 Some (read parameters ''TransactionID''))) \<and>
         (\<forall>items tid. get_prop holder ''ResultParameter'' = Inr (JArr items) \<longrightarrow>
            param_value numstr ''TransactionID'' items = Some tid \<longrightarrow>
            read parameters ''TransactionID'' = tid)"
  proof (intro impI conjI allI)
    fix i
    assume n: "n = 0"
      and p: "forEach_collect numstr ''Key'' ''Value'' holder ''ResultParameter''
          ''Result.ResultParameters?.ResultParameter?.forEach'' = Inr parameters"
      and i: "i < length rows" and m: "row_matches (rows ! i) ''mpesa_conversation_id'' cid"
    have row: "rows' ! i = patch_row (changes (?ok parameters)) (rows ! i)"
      using ok [OF n p] i m by (simp add: apply_update_nth)
    show "map_of (rows' ! i) ''status'' = Some (JStr ''released'')"
      unfolding row by (simp add: map_of_set_col)
    show "map_of (rows' ! i) ''b2c_result_description'' = Some (JStr d)"
      unfolding row by (simp add: map_of_set_col)
    assume "read parameters ''TransactionID'' \<noteq> JUndefined"
    then show "map_of (rows' ! i) ''mpesa_transaction_id'' = Some (read parameters ''TransactionID'')"
      unfolding row by (simp add: map_of_set_col)
  next
    fix items tid
    assume "forEach_collect numstr ''Key'' ''Value'' holder ''ResultParameter''
          ''Result.ResultParameters?.ResultParameter?.forEach'' = Inr parameters"
      "get_prop holder ''ResultParameter'' = Inr (JArr items)"
      "param_value numstr ''TransactionID'' items = Some tid"
    then show "read parameters ''TransactionID'' = tid" by (rule forEach_collect_read)
  qed
  have failed: "n \<noteq> 0 \<longrightarrow>
       (\<forall>i<length rows. row_matches (rows ! i) ''mpesa_conversation_id'' cid \<longrightarrow>
          map_of (rows' ! i) ''status'' = Some (JStr ''failed'') \<and>
          map_of (rows' ! i) ''b2c_result_code'' = Some (JNum n) \<and>
          map_of (rows' ! i) ''b2c_result_description'' = Some (JStr d))"
  proof (intro impI allI)
    fix i
    assume n: "n \<noteq> 0" and i: "i < length rows"
      and m: "row_matches (rows ! i) ''mpesa_conversation_id'' cid"
    have row: "rows' ! i = patch_row (changes ?bad) (rows ! i)"
      using bad [OF n] i m by (simp add: apply_update_nth)
    show "map_of (rows' ! i) ''status'' = Some (JStr ''failed'') \<and>
          map_of (rows' ! i) ''b2c_result_code'' = Some (JNum n) \<and>
          map_of (rows' ! i) ''b2c_result_description'' = Some (JStr d)"
      unfolding row by (simp add: map_of_set_col)
  qed
  from len others released failed show ?thesis by blast
qed

text \<open>
  The result for conversation \<open>AG_20261102_7071\<close> changes the second sample row only:
  with code 0 it is released with transaction id \<open>SK38L13J9Q\<close>, with code 2001 it fails.
\<close>

theorem payout_result_reconciles_witness:
  "rows_after (b2c_result_callback (\<lambda>x. []) ''2026-11-03T10:05:00.000Z''
      (result_body ''AG_20261102_7071'' 0) Applies escrow_rows) =
     [[(''id'', JStr ''tx1''), (''status'', JStr ''held_in_escrow''),
       (''mpesa_conversation_id'', JNull)],
      [(''id'', JStr ''tx2''), (''status'', JStr ''released''),
       (''mpesa_conversation_id'', JStr ''AG_20261102_7071''),
       (''mpesa_transaction_id'', JStr ''SK38L13J9Q''),
       (''b2c_result_code'', JStr ''0''),
       (''b2c_result_description'', JStr ''The service request is processed.''),
       (''released_at'', JStr ''2026-11-03T10:05:00.000Z'')]] \<and>
   rows_after (b2c_result_callback (\<lambda>x. []) ''2026-11-03T10:05:00.000Z''
      (result_body ''AG_20261102_7071'' 2001) Applies escrow_rows) =
     [[(''id'', JStr ''tx1''), (''status'', JStr ''held_in_escrow''),
       (''mpesa_conversation_id'', JNull)],
      [(''id'', JStr ''tx2''), (''status'', JStr ''failed''),
       (''mpesa_conversation_id'', JStr ''AG_20261102_7071''),
       (''b2c_result_code'', JNum 2001),
       (''b2c_result_description'', JStr ''The service request is processed.'')]]"
proof -
  let ?result = "\<lambda>code. JObj [(''ResultCode'', JNum code),
                  (''ResultDesc'', JStr ''The service request is processed.''),
                  (''ConversationID'', JStr ''AG_20261102_7071''),
                  (''ResultParameters'',
                   JObj [(''ResultParameter'',
                          JArr [JObj [(''Key'', JStr ''TransactionAmount''), (''Value'', JNum 100)],
                                JObj [(''Key'', JStr ''TransactionID''),
                                      (''Value'', JStr ''SK38L13J9Q'')]])])]"
  have h1: "get_prop (result_body ''AG_20261102_7071'' code) ''Result'' = Inr (?result code)"
    for code by (simp add: result_body_def)
  have h2: "get_prop (?result code) ''ResultCode'' = Inr (JNum code)" for code by simp
  have h3: "get_prop (?result code) ''ResultDesc'' =
      Inr (JStr ''The service request is processed.'')" for code by simp
  have h4: "get_prop (?result code) ''ConversationID'' = Inr (JStr ''AG_20261102_7071'')"
    for code by simp
  have h5: "get_prop (?result code) ''ResultParameters'' =
      Inr (JObj [(''ResultParameter'',
                  JArr [JObj [(''Key'', JStr ''TransactionAmount''), (''Value'', JNum 100)],
                        JObj [(''Key'', JStr ''TransactionID''),
                              (''Value'', JStr ''SK38L13J9Q'')]])])" for code by simp
  note ok = payout_result_reconciles [where n = 0 and numstr = "\<lambda>x. []"
      and stamp = "''2026-11-03T10:05:00.000Z''" and rows = escrow_rows, OF h1 h2 h3 h4 h5 refl]
  note bad = payout_result_reconciles [where n = 2001 and numstr = "\<lambda>x. []"
      and stamp = "''2026-11-03T10:05:00.000Z''" and rows = escrow_rows, OF h1 h2 h3 h4 h5 refl]
  show ?thesis
    using ok bad
    by (simp add: b2c_result_callback_def b2c_result_try_def result_body_def then_do_def
        destructure_def forEach_collect_def callback_done_def apply_update_def row_matches_def
        escrow_rows_def assign_def read_def empty_object_def)
qed

section \<open>Properties of the charge and payout requests\<close>

text \<open>
  C10: a charge request with a phone number and an amount of at least 1, and a payout
  request with a phone number and an amount of at least 10, for which a token was
  obtained, post exactly one payload, whose \<open>Amount\<close> is \<open>Math.round\<close> of the
  request's amount: the floor of the amount plus one half. An amount that is not an
  integer is not rejected: 10.4 is sent as 10.
\<close>

theorem amount_is_rounded:
  assumes "phoneNumber sreq = Some sphone" "sphone \<noteq> []" "amount sreq = Some a"
    and "phoneNumber breq = Some bphone" "bphone \<noteq> []" "amount breq = Some b"
  shows "(1 \<le> a \<longrightarrow>
            (\<exists>payload. posted (stk_push cfg sreq (Inr t) stamp provider) = [(t, payload)] \<and>
               get_prop payload ''Amount'' = Inr (JNum (js_round a)))) \<and>
         (10 \<le> b \<longrightarrow>
            (\<exists>payload. posted (b2c_payment cfg breq (Inr t) provider' sb rows) = [(t, payload)] \<and>
               get_prop payload ''Amount'' = Inr (JNum (js_round b)))) \<and>
         js_round x = of_int \<lfloor>x + 1 / 2\<rfloor> \<and> js_round 10.4 = 10"
proof -
  have stk: "1 \<le> a \<longrightarrow>
            (\<exists>payload. posted (stk_push cfg sreq (Inr t) stamp provider) = [(t, payload)] \<and>
               get_prop payload ''Amount'' = Inr (JNum (js_round a)))"
    using assms(1-3)
    by (auto simp: stk_push_def stkPushPayload_def Let_def split: sum.splits prod.splits)
  have b2c: "10 \<le> b \<longrightarrow>
            (\<exists>payload. posted (b2c_payment cfg breq (Inr t) provider' sb rows) = [(t, payload)] \<and>
               get_prop payload ''Amount'' = Inr (JNum (js_round b)))"
    using assms(4-6)
    by (auto simp: b2c_payment_def b2cPayload_def b2c_failed_def Let_def split: sum.splits)
  have r: "js_round 10.4 = 10" by (simp add: js_round_def)
  from stk b2c r show ?thesis by (simp add: js_round_def)
qed

text \<open>A charge of 10.4 is posted as 10, a payout of 10.5 as 11.\<close>

theorem amount_is_rounded_witness:
  "(\<exists>payload.
      posted (stk_push sandbox_config (test_charge\<lparr>amount := Some 10.4\<rparr>) (Inr ''tok'')
        ''2026-11-03T10:00:00.000Z'' (Inr JNull)) = [(''tok'', payload)] \<and>
      get_prop payload ''Amount'' = Inr (JNum 10)) \<and>
   (\<exists>payload.
      posted (b2c_payment sandbox_config
        ((payout_request (JObj [(''id'', JStr ''tx1'')]))\<lparr>amount := Some 10.5\<rparr>) (Inr ''tok'')
        (Inr payout_ack) Applies escrow_rows) = [(''tok'', payload)] \<and>
      get_prop payload ''Amount'' = Inr (JNum 11))"
proof -
  have s1: "phoneNumber (test_charge\<lparr>amount := Some 10.4\<rparr>) = Some ''254746221954''"
    and s2: "''254746221954'' \<noteq> []"
    and s3: "amount (test_charge\<lparr>amount := Some 10.4\<rparr>) = Some 10.4"
    by (simp_all add: test_charge_def)
  have b1: "phoneNumber ((payout_request (JObj [(''id'', JStr ''tx1'')]))\<lparr>amount := Some 10.5\<rparr>)
      = Some ''0746221954''"
    and b2: "''0746221954'' \<noteq> []"
    and b3: "amount ((payout_request (JObj [(''id'', JStr ''tx1'')]))\<lparr>amount := Some 10.5\<rparr>)
      = Some 10.5"
    by (simp_all add: payout_request_def)
  show ?thesis
    using amount_is_rounded [OF s1 s2 s3 b1 b2 b3, of sandbox_config "''tok''"
        "''2026-11-03T10:00:00.000Z''" "Inr JNull" "Inr payout_ack" Applies escrow_rows 0]
    by (simp add: js_round_def)
qed

lemmas password_defs =
  generatePassword_def interpolate_def utf8_def is_digit_def b64_digit_def b64_alphabet_def

text \<open>
  C4: the password that is sent. For the charge request of \<open>test-mpesa.sh\<close> and for a
  status query, both made on 2026-11-03 at 10:00 with the sandbox configuration, the
  posted payload holds the literal password and the time stamp \<open>20210628092408\<close>. The
  password and time stamp that \<open>generatePassword\<close> computes at that time are different
  ones, with time stamp \<open>20261103100000\<close>; the literal pair is what \<open>generatePassword\<close>
  computed on 2021-06-28 at 09:24:08.
\<close>

theorem literal_password_sent:
  "map (\<lambda>(t, p). (get_prop p ''Password'', get_prop p ''Timestamp''))
     (posted (stk_push sandbox_config test_charge (Inr ''tok'') ''2026-11-03T10:00:00.000Z''
        provider)) =
     [(Inr (JStr ''MTc0Mzc5YmZiMjc5ZjlhYTliZGJjZjE1OGU5N2RkNzFhNDY3Y2QyZTBjODkzMDU5YjEwZjc4ZTZiNzJhZGExZWQyYzkxOTIwMjEwNjI4MDkyNDA4''),
       Inr (JStr ''20210628092408''))] \<and>
   map (\<lambda>(t, p). (get_prop p ''Password'', get_prop p ''Timestamp''))
     (posted (query_stk sandbox_config (Some ''ws_CO_03112026100000'') (Inr ''tok'')
        ''2026-11-03T10:00:05.000Z'' provider)) =
     [(Inr (JStr ''MTc0Mzc5YmZiMjc5ZjlhYTliZGJjZjE1OGU5N2RkNzFhNDY3Y2QyZTBjODkzMDU5YjEwZjc4ZTZiNzJhZGExZWQyYzkxOTIwMjEwNjI4MDkyNDA4''),
       Inr (JStr ''20210628092408''))] \<and>
   generatePassword sandbox_config ''2026-11-03T10:00:00.000Z'' =
     (''MTc0Mzc5YmZiMjc5ZjlhYTliZGJjZjE1OGU5N2RkNzFhNDY3Y2QyZTBjODkzMDU5YjEwZjc4ZTZiNzJhZGExZWQyYzkxOTIwMjYxMTAzMTAwMDAw'',
      ''20261103100000'') \<and>
   generatePassword sandbox_config ''2021-06-28T09:24:08.000Z'' =
     (''MTc0Mzc5YmZiMjc5ZjlhYTliZGJjZjE1OGU5N2RkNzFhNDY3Y2QyZTBjODkzMDU5YjEwZjc4ZTZiNzJhZGExZWQyYzkxOTIwMjEwNjI4MDkyNDA4'',
      ''20210628092408'')"
proof -
  have stk: "map (\<lambda>(t, p). (get_prop p ''Password'', get_prop p ''Timestamp''))
     (posted (stk_push sandbox_config test_charge (Inr ''tok'') ''2026-11-03T10:00:00.000Z''
        provider)) =
     [(Inr (JStr ''MTc0Mzc5YmZiMjc5ZjlhYTliZGJjZjE1OGU5N2RkNzFhNDY3Y2QyZTBjODkzMDU5YjEwZjc4ZTZiNzJhZGExZWQyYzkxOTIwMjEwNjI4MDkyNDA4''),
       Inr (JStr ''20210628092408''))]"
    by (simp add: stk_push_def stkPushPayload_def test_charge_def Let_def split_beta
        split: sum.splits)
  have qry: "map (\<lambda>(t, p). (get_prop p ''Password'', get_prop p ''Timestamp''))
     (posted (query_stk sandbox_config (Some ''ws_CO_03112026100000'') (Inr ''tok'')
        ''2026-11-03T10:00:05.000Z'' provider)) =
     [(Inr (JStr ''MTc0Mzc5YmZiMjc5ZjlhYTliZGJjZjE1OGU5N2RkNzFhNDY3Y2QyZTBjODkzMDU5YjEwZjc4ZTZiNzJhZGExZWQyYzkxOTIwMjEwNjI4MDkyNDA4''),
       Inr (JStr ''20210628092408''))]"
    by (simp add: query_stk_def queryPayload_def Let_def split_beta split: sum.splits)
  have fresh: "generatePassword sandbox_config ''2026-11-03T10:00:00.000Z'' =
     (''MTc0Mzc5YmZiMjc5ZjlhYTliZGJjZjE1OGU5N2RkNzFhNDY3Y2QyZTBjODkzMDU5YjEwZjc4ZTZiNzJhZGExZWQyYzkxOTIwMjYxMTAzMTAwMDAw'',
      ''20261103100000'')"
    by (simp add: password_defs sandbox_config_def)
  have old: "generatePassword sandbox_config ''2021-06-28T09:24:08.000Z'' =
     (''MTc0Mzc5YmZiMjc5ZjlhYTliZGJjZjE1OGU5N2RkNzFhNDY3Y2QyZTBjODkzMDU5YjEwZjc4ZTZiNzJhZGExZWQyYzkxOTIwMjEwNjI4MDkyNDA4'',
      ''20210628092408'')"
    by (simp add: password_defs sandbox_config_def)
  from stk qry fresh old show ?thesis by simp
qed

text \<open>
  C7: the conversation id of a payout. The provider acknowledges the payout of
  transaction \<open>tx1\<close> with \<open>ConversationID\<close> \<open>AG_20261103_2010325b025970fbc403\<close>. The row
  is released, but its \<open>mpesa_conversation_id\<close> stays NULL: the update takes the id from
  the property \<open>conversationID\<close>, which the acknowledgment does not have, while the
  response to the caller takes it from \<open>ConversationID\<close>. The result callback for that
  conversation then finds no row to update.
\<close>

theorem conversation_id_not_stored:
  "rows_after (b2c_payment sandbox_config (payout_request (JObj [(''id'', JStr ''tx1'')]))
      (Inr ''tok'') (Inr payout_ack) Applies escrow_rows) =
     [[(''id'', JStr ''tx1''), (''status'', JStr ''released''),
       (''mpesa_conversation_id'', JNull)],
      [(''id'', JStr ''tx2''), (''status'', JStr ''held_in_escrow''),
       (''mpesa_conversation_id'', JStr ''AG_20261102_7071'')]] \<and>
   answer (b2c_payment sandbox_config (payout_request (JObj [(''id'', JStr ''tx1'')]))
      (Inr ''tok'') (Inr payout_ack) Applies escrow_rows) =
     \<lparr>status = 200,
      body = JObj [(''status'', JStr ''success''),
                   (''message'', JStr ''B2C payment initiated successfully''),
                   (''data'',
                    JObj [(''conversationID'', JStr ''AG_20261103_2010325b025970fbc403''),
                          (''originatorConversationID'', JStr ''600997_Test_32et3241ed8yu''),
                          (''responseCode'', JStr ''0''),
                          (''responseDescription'',
                           JStr ''Accept the service request successfully.'')])]\<rparr> \<and>
   rows_after (b2c_result_callback numstr stamp
      (result_body ''AG_20261103_2010325b025970fbc403'' 0) Applies
      (rows_after (b2c_payment sandbox_config (payout_request (JObj [(''id'', JStr ''tx1'')]))
         (Inr ''tok'') (Inr payout_ack) Applies escrow_rows))) =
     rows_after (b2c_payment sandbox_config (payout_request (JObj [(''id'', JStr ''tx1'')]))
         (Inr ''tok'') (Inr payout_ack) Applies escrow_rows)"
proof -
  have pay: "b2c_payment sandbox_config (payout_request (JObj [(''id'', JStr ''tx1'')]))
      (Inr ''tok'') (Inr payout_ack) Applies escrow_rows =
    \<lparr>posted = [(''tok'', b2cPayload sandbox_config ''254746221954'' 100
                 (payout_request (JObj [(''id'', JStr ''tx1'')])))],
     answer = \<lparr>status = 200,
      body = JObj [(''status'', JStr ''success''),
                   (''message'', JStr ''B2C payment initiated successfully''),
                   (''data'',
                    JObj [(''conversationID'', JStr ''AG_20261103_2010325b025970fbc403''),
                          (''originatorConversationID'', JStr ''600997_Test_32et3241ed8yu''),
                          (''responseCode'', JStr ''0''),
                          (''responseDescription'',
                           JStr ''Accept the service request successfully.'')])]\<rparr>,
     rows_after = [[(''id'', JStr ''tx1''), (''status'', JStr ''released''),
       (''mpesa_conversation_id'', JNull)],
      [(''id'', JStr ''tx2''), (''status'', JStr ''held_in_escrow''),
       (''mpesa_conversation_id'', JStr ''AG_20261102_7071'')]],
     completed = []\<rparr>"
    by (simp add: b2c_payment_def payout_request_def payout_ack_def escrow_rows_def
        b2c_success_def then_do_def apply_update_def row_matches_def formatPhoneNumber_def
        startsWith_def slice_from_def strip_class_def is_space_def)
  show ?thesis
    unfolding pay
    by (simp add: b2c_result_callback_def b2c_result_try_def result_body_def then_do_def
        destructure_def forEach_collect_def callback_done_def apply_update_def row_matches_def)
qed

text \<open>
  C8: a payout request without \<open>transaction\<close>. The request passes validation, the payout
  is posted to the provider, and reading \<open>transaction.id\<close> then throws: the caller gets
  status 500 and no row is updated.
\<close>

theorem payout_without_transaction:
  "length (posted (b2c_payment sandbox_config (payout_request JUndefined) (Inr ''tok'')
      (Inr payout_ack) Applies rows)) = 1 \<and>
   answer (b2c_payment sandbox_config (payout_request JUndefined) (Inr ''tok'')
      (Inr payout_ack) Applies rows) =
     \<lparr>status = 500,
      body = JObj [(''status'', JStr ''error''),
                   (''message'', JStr ''Failed to initiate B2C payment''),
                   (''error'', JStr ''Cannot read properties of undefined (reading 'id')'')]\<rparr> \<and>
   rows_after (b2c_payment sandbox_config (payout_request JUndefined) (Inr ''tok'')
      (Inr payout_ack) Applies rows) = rows"
  by (simp add: b2c_payment_def payout_request_def payout_ack_def b2c_failed_def
      server_error_def quoted_def)

end
